theory Spec2Isabelle
  imports Main
begin

section \<open>Residual and ResNeXt blocks of layers/residual.py\<close>

text \<open>
  The module defines four block classes, \<open>_Residual\<close>, \<open>_ResidualTranspose\<close>,
  \<open>_Resnext\<close> and \<open>_ResnextTranspose\<close>, each with the subclasses of rank 1, 2 and 3
  that only fix \<open>rank\<close>.  A block is configured by its constructor, assembles its
  sub-layers in \<open>build\<close>, and applies them in \<open>call\<close>.

  Exceptions are values: every function that can raise returns \<open>error + 'a\<close>.
  Initializers, regularizers, constraints, the normalization and the activation are handed
  through to the sub-layers unchanged and play no part in the shape arithmetic or in the
  order of the sub-layers; they are left out of the records below.
\<close>

subsection \<open>Errors and sequencing\<close>

datatype error =
    ValueError string
  | TypeError string
  | IndexError string
  | ZeroDivisionError string
  | AttributeError string

fun sum_bind :: "error + 'a \<Rightarrow> ('a \<Rightarrow> error + 'b) \<Rightarrow> error + 'b" where
  "sum_bind (Inl e) f = Inl e"
| "sum_bind (Inr x) f = f x"

subsection \<open>Arguments and their normalization\<close>

datatype data_format = channels_last | channels_first

text \<open>An argument that Python accepts as one integer or as a tuple of integers.\<close>

datatype int_or_tuple = IntArg int | TupleArg "int list"

text \<open>
  \<open>conv_utils.normalize_tuple(value, n, name)\<close> of the framework: an integer is repeated
  \<open>n\<close> times, a tuple must have length \<open>n\<close>.
\<close>

definition normalize_tuple :: "int_or_tuple \<Rightarrow> nat \<Rightarrow> string \<Rightarrow> error + int list" where
  "normalize_tuple v n name =
     (case v of
        IntArg i \<Rightarrow> Inr (replicate n i)
      | TupleArg xs \<Rightarrow> if length xs \<noteq> n then Inl (ValueError name) else Inr xs)"

text \<open>
  \<open>conv_utils.normalize_data_format\<close>: \<open>None\<close> stands for the framework's global
  \<open>K.image_data_format()\<close>, which is the parameter \<open>idf\<close> here.  A string that names no
  data format is excluded by the type.
\<close>

definition normalize_data_format :: "data_format \<Rightarrow> data_format option \<Rightarrow> data_format" where
  "normalize_data_format idf v = (case v of None \<Rightarrow> idf | Some d \<Rightarrow> d)"

text \<open>\<open>_check_dl_func = lambda a: all(ai==1 for ai in a)\<close>\<close>

definition check_dl_func :: "int list \<Rightarrow> bool" where
  "check_dl_func a = list_all (\<lambda>ai. ai = 1) a"

text \<open>A dimension of a tensor shape is an integer or unknown (\<open>None\<close>).\<close>

type_synonym dim = "int option"
type_synonym shape = "dim list"

text \<open>
  The padding and cropping arguments: one integer, one integer per axis, or one pair per
  axis (the form \<open>build\<close> infers).
\<close>

datatype pad_arg = PadInt int | PadInts "int list" | PadPairs "(int \<times> int) list"

text \<open>Python truthiness of the optional arguments tested by \<open>if output_mshape:\<close>.\<close>

fun truthy_shape :: "shape option \<Rightarrow> bool" where
  "truthy_shape None = False"
| "truthy_shape (Some []) = False"
| "truthy_shape (Some (d # ds)) = True"

fun truthy_pad :: "pad_arg option \<Rightarrow> bool" where
  "truthy_pad None = False"
| "truthy_pad (Some (PadInt i)) = (i \<noteq> 0)"
| "truthy_pad (Some (PadInts xs)) = (xs \<noteq> [])"
| "truthy_pad (Some (PadPairs ps)) = (ps \<noteq> [])"

record init_args =
  a_depth :: int
  a_ofilters :: int
  a_kernel_size :: int_or_tuple
  a_lgroups :: "int option"
  a_lfilters :: "int option"
  a_strides :: int_or_tuple
  a_output_mshape :: "shape option"
  a_output_padding :: "pad_arg option"
  a_output_cropping :: "pad_arg option"
  a_data_format :: "data_format option"
  a_dilation_rate :: int_or_tuple
  a_dropout :: "string option"
  a_activation :: "string option"
  a_high_activation :: "string option"

subsection \<open>The constructors\<close>

text \<open>
  The attributes a constructor stores.  \<open>lgroups\<close> exists on the ResNeXt classes only and
  the three \<open>output_\<close> attributes on the transposed classes only; the other classes leave
  them \<open>None\<close>.  \<open>depth\<close> is the stored \<open>self.depth\<close>, that is the argument minus 2.
  \<open>activation\<close> is \<open>None\<close> when the constructor has not set the attribute
  \<open>self.activation\<close> at all, and the name of the stored activation function otherwise.
\<close>

text \<open>
  The end of every constructor:
  \<^verbatim>\<open>
  if _high_activation is not None:
      activation = _high_activation
  self.high_activation = _high_activation
  if isinstance(activation, str) and (activation.casefold() in ('prelu','lrelu')):
      self.activation = activations.get(None)
      self.high_activation = activation.casefold()
      self.activity_config = activity_config
  elif activation is not None:
      self.activation = activations.get(activation)
      self.activity_config = None
  \<close>
  With \<open>activation = None\<close>, the default, neither branch runs and \<open>self.activation\<close> and
  \<open>self.activity_config\<close> are never set.  An activation is given by its name, in the form
  \<open>casefold\<close> returns; \<open>activations.get(None)\<close> is the function named \<open>linear\<close>.  The
  result is the stored \<open>self.activation\<close> (or \<open>None\<close> when unset) and
  \<open>self.high_activation\<close>.
\<close>

definition init_activation :: "init_args \<Rightarrow> string option \<times> string option" where
  "init_activation a =
     (let activation = (case a_high_activation a of Some h \<Rightarrow> Some h | None \<Rightarrow> a_activation a)
      in case activation of
           None \<Rightarrow> (None, a_high_activation a)
         | Some n \<Rightarrow>
             if n = ''prelu'' \<or> n = ''lrelu'' then (Some ''linear'', Some n)
             else (Some n, a_high_activation a))"

record block =
  rank :: nat
  depth :: int
  ofilters :: int
  lgroups :: "int option"
  lfilters :: "int option"
  kernel_size :: "int list"
  strides :: "int list"
  output_mshape :: "shape option"
  output_padding :: "pad_arg option"
  output_cropping :: "pad_arg option"
  data_format :: data_format
  dilation_rate :: "int list"
  dropout :: "string option"
  activation :: "string option"
  high_activation :: "string option"

definition Residual_init :: "data_format \<Rightarrow> nat \<Rightarrow> init_args \<Rightarrow> error + block" where
  "Residual_init idf rk a =
     (if a_depth a - 2 < 1
      then Inl (ValueError ''The depth of the residual block should be >= 3.'')
      else
      sum_bind (normalize_tuple (a_kernel_size a) rk ''kernel_size'') (\<lambda>ks.
      sum_bind (normalize_tuple (a_strides a) rk ''strides'') (\<lambda>st.
      sum_bind (normalize_tuple (a_dilation_rate a) rk ''dilation_rate'') (\<lambda>dl.
      if \<not> check_dl_func dl \<and> \<not> check_dl_func st
      then Inl (ValueError ''Does not support dilation_rate when strides > 1.'')
      else Inr \<lparr> rank = rk, depth = a_depth a - 2, ofilters = a_ofilters a,
                 lgroups = None, lfilters = a_lfilters a,
                 kernel_size = ks, strides = st,
                 output_mshape = None, output_padding = None, output_cropping = None,
                 data_format = normalize_data_format idf (a_data_format a),
                 dilation_rate = dl, dropout = a_dropout a,
                 activation = fst (init_activation a),
                 high_activation = snd (init_activation a) \<rparr>))))"

definition ResidualTranspose_init :: "data_format \<Rightarrow> nat \<Rightarrow> init_args \<Rightarrow> error + block" where
  "ResidualTranspose_init idf rk a =
     (if a_depth a - 2 < 1
      then Inl (ValueError ''The depth of the residual block should be >= 3.'')
      else
      sum_bind (normalize_tuple (a_kernel_size a) rk ''kernel_size'') (\<lambda>ks.
      sum_bind (normalize_tuple (a_strides a) rk ''strides'') (\<lambda>st.
      if rk = 1 \<and> normalize_data_format idf (a_data_format a) = channels_first
      then Inl (ValueError ''Does not support channels_first data format for 1D case due to the limitation of upsampling method.'')
      else
      sum_bind (normalize_tuple (a_dilation_rate a) rk ''dilation_rate'') (\<lambda>dl.
      if \<not> check_dl_func dl \<and> \<not> check_dl_func st
      then Inl (ValueError ''Does not support dilation_rate when strides > 1.'')
      else Inr \<lparr> rank = rk, depth = a_depth a - 2, ofilters = a_ofilters a,
                 lgroups = None, lfilters = a_lfilters a,
                 kernel_size = ks, strides = st,
                 output_mshape =
                   (if truthy_shape (a_output_mshape a) then a_output_mshape a else None),
                 output_padding = a_output_padding a,
                 output_cropping =
                   (if truthy_pad (a_output_cropping a) then a_output_cropping a else None),
                 data_format = normalize_data_format idf (a_data_format a),
                 dilation_rate = dl, dropout = a_dropout a,
                 activation = fst (init_activation a),
                 high_activation = snd (init_activation a) \<rparr>))))"

definition Resnext_init :: "data_format \<Rightarrow> nat \<Rightarrow> init_args \<Rightarrow> error + block" where
  "Resnext_init idf rk a =
     (if a_depth a - 2 < 1
      then Inl (ValueError ''The depth of the ResNeXt block should be >= 3.'')
      else
      sum_bind (normalize_tuple (a_kernel_size a) rk ''kernel_size'') (\<lambda>ks.
      sum_bind (normalize_tuple (a_strides a) rk ''strides'') (\<lambda>st.
      sum_bind (normalize_tuple (a_dilation_rate a) rk ''dilation_rate'') (\<lambda>dl.
      if \<not> check_dl_func dl \<and> \<not> check_dl_func st
      then Inl (ValueError ''Does not support dilation_rate when strides > 1.'')
      else Inr \<lparr> rank = rk, depth = a_depth a - 2, ofilters = a_ofilters a,
                 lgroups = a_lgroups a, lfilters = a_lfilters a,
                 kernel_size = ks, strides = st,
                 output_mshape = None, output_padding = None, output_cropping = None,
                 data_format = normalize_data_format idf (a_data_format a),
                 dilation_rate = dl, dropout = a_dropout a,
                 activation = fst (init_activation a),
                 high_activation = snd (init_activation a) \<rparr>))))"

definition ResnextTranspose_init :: "data_format \<Rightarrow> nat \<Rightarrow> init_args \<Rightarrow> error + block" where
  "ResnextTranspose_init idf rk a =
     (if a_depth a - 2 < 1
      then Inl (ValueError ''The depth of the ResNeXt block should be >= 3.'')
      else
      sum_bind (normalize_tuple (a_kernel_size a) rk ''kernel_size'') (\<lambda>ks.
      sum_bind (normalize_tuple (a_strides a) rk ''strides'') (\<lambda>st.
      if rk = 1 \<and> normalize_data_format idf (a_data_format a) = channels_first
      then Inl (ValueError ''Does not support channels_first data format for 1D case due to the limitation of upsampling method.'')
      else
      sum_bind (normalize_tuple (a_dilation_rate a) rk ''dilation_rate'') (\<lambda>dl.
      if \<not> check_dl_func dl \<and> \<not> check_dl_func st
      then Inl (ValueError ''Does not support dilation_rate when strides > 1.'')
      else Inr \<lparr> rank = rk, depth = a_depth a - 2, ofilters = a_ofilters a,
                 lgroups = a_lgroups a, lfilters = a_lfilters a,
                 kernel_size = ks, strides = st,
                 output_mshape =
                   (if truthy_shape (a_output_mshape a) then a_output_mshape a else None),
                 output_padding = a_output_padding a,
                 output_cropping =
                   (if truthy_pad (a_output_cropping a) then a_output_cropping a else None),
                 data_format = normalize_data_format idf (a_data_format a),
                 dilation_rate = dl, dropout = a_dropout a,
                 activation = fst (init_activation a),
                 high_activation = snd (init_activation a) \<rparr>))))"

text \<open>The four classes, and the constructor of each.\<close>

datatype kind = Residual | ResidualTranspose | Resnext | ResnextTranspose

fun block_init :: "kind \<Rightarrow> data_format \<Rightarrow> nat \<Rightarrow> init_args \<Rightarrow> error + block" where
  "block_init Residual = Residual_init"
| "block_init ResidualTranspose = ResidualTranspose_init"
| "block_init Resnext = Resnext_init"
| "block_init ResnextTranspose = ResnextTranspose_init"

fun depth_message :: "kind \<Rightarrow> string" where
  "depth_message Residual = ''The depth of the residual block should be >= 3.''"
| "depth_message ResidualTranspose = ''The depth of the residual block should be >= 3.''"
| "depth_message Resnext = ''The depth of the ResNeXt block should be >= 3.''"
| "depth_message ResnextTranspose = ''The depth of the ResNeXt block should be >= 3.''"

fun is_ValueError :: "error + 'a \<Rightarrow> bool" where
  "is_ValueError (Inl (ValueError m)) = True"
| "is_ValueError r = False"

subsection \<open>Serialization\<close>

text \<open>
  \<open>get_config\<close> returns a dictionary whose entries mirror the constructor's arguments;
  the entry \<open>'depth'\<close> is \<open>self.depth + 2\<close>.  The dictionary is written as one literal, whose
  entries \<open>'activation': activations.serialize(self.activation)\<close> and
  \<open>'activity_config': self.activity_config\<close> read attributes that the constructor sets
  only when an activation is given: on a block constructed without one the literal raises
  \<open>AttributeError\<close> and no dictionary is returned.  The plain classes have no \<open>output_\<close>
  entries and the residual classes no \<open>'lgroups'\<close>; their attributes are \<open>None\<close> in
  \<^typ>\<open>block\<close>, so one function serves the four classes.  \<open>from_config\<close> of the
  framework calls the constructor with the dictionary as keyword arguments.
\<close>

definition get_config :: "block \<Rightarrow> error + init_args" where
  "get_config self =
     (case activation self of
        None \<Rightarrow> Inl (AttributeError ''object has no attribute 'activation' '')
      | Some act \<Rightarrow>
        Inr \<lparr> a_depth = depth self + 2,
              a_ofilters = ofilters self,
              a_kernel_size = TupleArg (kernel_size self),
              a_lgroups = lgroups self,
              a_lfilters = lfilters self,
              a_strides = TupleArg (strides self),
              a_output_mshape = output_mshape self,
              a_output_padding = output_padding self,
              a_output_cropping = output_cropping self,
              a_data_format = Some (data_format self),
              a_dilation_rate = TupleArg (dilation_rate self),
              a_dropout = dropout self,
              a_activation = Some act,
              a_high_activation = high_activation self \<rparr>)"

definition from_config :: "kind \<Rightarrow> data_format \<Rightarrow> nat \<Rightarrow> init_args \<Rightarrow> error + block" where
  "from_config k idf rk config = block_init k idf rk config"

subsection \<open>Sub-layers and their output shapes\<close>

text \<open>
  The arguments a block passes to \<open>_AConv\<close> and \<open>NACUnit\<close>.  Every unit of this module is
  created with \<open>padding = 'same'\<close>.  \<open>c_lgroups\<close> and \<open>c_use_bias\<close> are \<open>None\<close> where the
  block does not pass the keyword.
\<close>

record conv_cfg =
  c_rank :: nat
  c_filters :: int
  c_lgroups :: "int option"
  c_kernel_size :: int_or_tuple
  c_strides :: int_or_tuple
  c_data_format :: data_format
  c_dilation_rate :: int_or_tuple
  c_use_bias :: "bool option"

datatype layer =
    AConv conv_cfg
  | NACUnit conv_cfg
  | Dropout string
  | Add
  | UpSampling "int list" data_format
  | ZeroPadding "(int \<times> int) list" data_format
  | Cropping "(int \<times> int) list" data_format

text \<open>The batch entry, the spatial entries and the channel entry of a shape.\<close>

definition batch_of :: "shape \<Rightarrow> dim" where
  "batch_of s = hd s"

definition spatial_of :: "data_format \<Rightarrow> shape \<Rightarrow> dim list" where
  "spatial_of df s = (case df of channels_last \<Rightarrow> butlast (tl s) | channels_first \<Rightarrow> tl (tl s))"

definition channel_of :: "data_format \<Rightarrow> shape \<Rightarrow> dim" where
  "channel_of df s = (case df of channels_last \<Rightarrow> last s | channels_first \<Rightarrow> s ! 1)"

definition join_shape :: "data_format \<Rightarrow> dim \<Rightarrow> dim list \<Rightarrow> dim \<Rightarrow> shape" where
  "join_shape df b sp c = (case df of channels_last \<Rightarrow> b # sp @ [c] | channels_first \<Rightarrow> b # c # sp)"

text \<open>
  \<open>conv_utils.conv_output_length\<close> for \<open>padding = 'same'\<close>:
  \<open>(input_length + stride - 1) // stride\<close>, and \<open>None\<close> for an unknown length.
\<close>

definition conv_output_length :: "dim \<Rightarrow> int \<Rightarrow> error + dim" where
  "conv_output_length n s =
     (case n of
        None \<Rightarrow> Inr None
      | Some l \<Rightarrow> if s = 0 then Inl (ZeroDivisionError ''integer division or modulo by zero'')
                  else Inr (Some ((l + s - 1) div s)))"

fun conv_output_lengths :: "dim list \<Rightarrow> int list \<Rightarrow> error + dim list" where
  "conv_output_lengths [] ss = Inr []"
| "conv_output_lengths (n # ns) [] = Inl (IndexError ''tuple index out of range'')"
| "conv_output_lengths (n # ns) (s # ss) =
     sum_bind (conv_output_length n s) (\<lambda>m.
     sum_bind (conv_output_lengths ns ss) (\<lambda>ms. Inr (m # ms)))"

text \<open>
  Modelled from the spec: \<open>NACUnit\<close> (layers/unit.py) and \<open>_AConv\<close> (layers/conv.py) are
  not part of the sources at hand.  The spec describes them as thin wrappers of the
  framework's convolution (normalization, activation, convolution); their output shape is
  the convolution's: every spatial length goes through \<open>conv_output_length\<close> with the
  unit's stride and the channel entry becomes \<open>filters\<close>.  The input has \<open>rank + 2\<close>
  entries.
\<close>

definition conv_output_shape :: "conv_cfg \<Rightarrow> shape \<Rightarrow> error + shape" where
  "conv_output_shape cfg s =
     (if length s \<noteq> c_rank cfg + 2 then Inl (ValueError ''input rank'')
      else
      sum_bind (normalize_tuple (c_strides cfg) (c_rank cfg) ''strides'') (\<lambda>st.
      sum_bind (conv_output_lengths (spatial_of (c_data_format cfg) s) st) (\<lambda>sp.
      Inr (join_shape (c_data_format cfg) (batch_of s) sp (Some (c_filters cfg))))))"

fun upsample_dim :: "dim \<Rightarrow> int \<Rightarrow> dim" where
  "upsample_dim None k = None"
| "upsample_dim (Some n) k = Some (k * n)"

fun pad_dim :: "dim \<Rightarrow> int \<times> int \<Rightarrow> dim" where
  "pad_dim None p = None"
| "pad_dim (Some n) (a, b) = Some (n + a + b)"

fun crop_dim :: "dim \<Rightarrow> int \<times> int \<Rightarrow> dim" where
  "crop_dim None p = None"
| "crop_dim (Some n) (a, b) = Some (n - a - b)"

text \<open>
  The merge of the framework's \<open>Add\<close>: two entries agree when they are equal or one of
  them is 1; an unknown entry stays unknown.
\<close>

fun elemwise_dim :: "dim \<Rightarrow> dim \<Rightarrow> error + dim" where
  "elemwise_dim None j = Inr None"
| "elemwise_dim (Some i) None = Inr None"
| "elemwise_dim (Some i) (Some j) =
     (if i = 1 then Inr (Some j)
      else if j = 1 then Inr (Some i)
      else if i \<noteq> j then Inl (ValueError ''Operands could not be broadcast together'')
      else Inr (Some i))"

fun elemwise_shape :: "shape \<Rightarrow> shape \<Rightarrow> error + shape" where
  "elemwise_shape [] [] = Inr []"
| "elemwise_shape (i # is) (j # js) =
     sum_bind (elemwise_dim i j) (\<lambda>d.
     sum_bind (elemwise_shape is js) (\<lambda>ds. Inr (d # ds)))"
| "elemwise_shape is js = Inl (ValueError ''Operands could not be broadcast together'')"

fun merge_batch :: "dim \<Rightarrow> dim \<Rightarrow> error + dim" where
  "merge_batch None j = Inr j"
| "merge_batch (Some i) None = Inr (Some i)"
| "merge_batch (Some i) (Some j) =
     (if i = j then Inr (Some i)
      else Inl (ValueError ''Can not merge tensors with different batch sizes''))"

fun add_output_shape :: "shape \<Rightarrow> shape \<Rightarrow> error + shape" where
  "add_output_shape (b # is) (c # js) =
     sum_bind (merge_batch b c) (\<lambda>d.
     sum_bind (elemwise_shape is js) (\<lambda>ds. Inr (d # ds)))"
| "add_output_shape l r = Inl (ValueError ''A merge layer should be called on shapes of tensors'')"

text \<open>
  \<open>build\<close> followed by \<open>compute_output_shape\<close> of a sub-layer with one input.  The
  framework's upsampling, padding and cropping layers act on the spatial entries of an
  input with as many spatial entries as the layer has factors or pairs; the dropout
  layers keep the shape.  \<open>Add\<close> takes a list of inputs and goes through
  \<open>add_output_shape\<close>.
\<close>

fun layer_shape :: "layer \<Rightarrow> shape \<Rightarrow> error + shape" where
  "layer_shape (AConv cfg) s = conv_output_shape cfg s"
| "layer_shape (NACUnit cfg) s = conv_output_shape cfg s"
| "layer_shape (Dropout k) s = Inr s"
| "layer_shape Add s = Inl (ValueError ''A merge layer should be called on a list of inputs.'')"
| "layer_shape (UpSampling ks df) s =
     (if length s \<noteq> length ks + 2 then Inl (IndexError ''list index out of range'')
      else Inr (join_shape df (batch_of s) (map2 upsample_dim (spatial_of df s) ks)
                  (channel_of df s)))"
| "layer_shape (ZeroPadding ps df) s =
     (if length s \<noteq> length ps + 2 then Inl (IndexError ''list index out of range'')
      else Inr (join_shape df (batch_of s) (map2 pad_dim (spatial_of df s) ps)
                  (channel_of df s)))"
| "layer_shape (Cropping cs df) s =
     (if length s \<noteq> length cs + 2 then Inl (IndexError ''list index out of range'')
      else Inr (join_shape df (batch_of s) (map2 crop_dim (spatial_of df s) cs)
                  (channel_of df s)))"

text \<open>
  Modelled from the spec: \<open>return_dropout\<close> (layers/dropout.py) is not part of the sources
  at hand.  It returns \<open>None\<close> when no dropout is asked for and otherwise one of the
  dropout or noise layers listed in the class documentation.
\<close>

definition return_dropout :: "string option \<Rightarrow> layer option" where
  "return_dropout d = (case d of None \<Rightarrow> None | Some k \<Rightarrow> Some (Dropout k))"

text \<open>
  The padding and cropping layers of rank 2 and 3 accept one integer, one integer per
  axis or one pair per axis; those of rank 1 one integer or one pair of integers.
\<close>

definition normalize_pad :: "nat \<Rightarrow> pad_arg \<Rightarrow> error + (int \<times> int) list" where
  "normalize_pad n p =
     (case p of
        PadInt i \<Rightarrow> Inr (replicate n (i, i))
      | PadInts xs \<Rightarrow> if length xs \<noteq> n then Inl (ValueError ''padding'')
                      else Inr (map (\<lambda>x. (x, x)) xs)
      | PadPairs ps \<Rightarrow> if length ps \<noteq> n then Inl (ValueError ''padding'') else Inr ps)"

definition normalize_pad1 :: "pad_arg \<Rightarrow> error + (int \<times> int) list" where
  "normalize_pad1 p =
     (case p of
        PadInt i \<Rightarrow> Inr [(i, i)]
      | PadInts xs \<Rightarrow> (case xs of [a, b] \<Rightarrow> Inr [(a, b)] | _ \<Rightarrow> Inl (ValueError ''padding''))
      | PadPairs ps \<Rightarrow> Inl (ValueError ''padding''))"

subsection \<open>What build leaves on a block\<close>

text \<open>
  \<open>blk\<close> holds the attributes of the block as \<open>build\<close> leaves them (the inferred
  \<open>lfilters\<close>, \<open>lgroups\<close>, \<open>output_padding\<close> and \<open>output_cropping\<close> are stored back).
  The middle units are the attributes \<open>layer_middle_00\<close>, \<open>layer_middle_01\<close>, ... (numbered
  from 01 in the ResNeXt classes), kept here as a list in the order of their creation.
  \<open>layer_uppool\<close>, \<open>layer_padding\<close> and \<open>layer_cropping\<close> exist on the transposed classes
  only.  \<open>merge_shapes\<close> records the two shapes handed to \<open>self.layer_merge.build\<close>.
\<close>

record built =
  blk :: block
  channelIn :: int
  layer_uppool :: "layer option"
  layer_padding :: "layer option"
  layer_branch_left :: "layer option"
  layer_dropout :: "layer option"
  layer_first :: layer
  layer_middle :: "layer list"
  layer_last :: layer
  layer_merge :: layer
  layer_cropping :: "layer option"
  merge_shapes :: "shape \<times> shape"

text \<open>\<open>input_shape.dims[channel_axis]\<close> with \<open>channel_axis\<close> 1 or -1.\<close>

definition channel_axis_dim :: "data_format \<Rightarrow> shape \<Rightarrow> dim" where
  "channel_axis_dim df s = (if df = channels_first then s ! 1 else last s)"

text \<open>The shape after an optional sub-layer.\<close>

definition opt_layer_shape :: "layer option \<Rightarrow> shape \<Rightarrow> error + shape" where
  "opt_layer_shape l s = (case l of None \<Rightarrow> Inr s | Some x \<Rightarrow> layer_shape x s)"

text \<open>
  The loop \<open>for i in range(self.depth)\<close> of \<open>build\<close>: unit \<open>i\<close> is created by \<open>mk i\<close>, built
  on the running shape of the right branch, and the running shape becomes its output shape.
\<close>

fun build_middle :: "(nat \<Rightarrow> layer) \<Rightarrow> nat list \<Rightarrow> shape \<Rightarrow> error + (layer list \<times> shape)" where
  "build_middle mk [] right_shape = Inr ([], right_shape)"
| "build_middle mk (i # is) right_shape =
     sum_bind (layer_shape (mk i) right_shape) (\<lambda>s.
     sum_bind (build_middle mk is s) (\<lambda>(ls, s'). Inr (mk i # ls, s')))"

subsection \<open>The two branches\<close>

text \<open>
  The four \<open>build\<close> methods create the two branches with the same statements: the
  projection of the left branch (unless that branch is the identity), the dropout layer,
  the first unit, the middle units, the last unit and the merge, each built on the running
  shape of its branch.  \<open>build_branches\<close> is this common part.  The methods differ in the
  strides \<open>st\<close> given to the projection and to the first unit (the block's strides, or 1
  after an upsampling), in the filters \<open>first_filters\<close> of the first unit, in the middle
  units \<open>mk\<close>, and in the condition \<open>identity_left\<close> under which there is no projection.
  \<open>self\<close> is the block with the attributes inferred so far, \<open>uppool\<close> and \<open>padding\<close> are
  the layers created before the branches, and \<open>next_shape\<close> is the shape both branches
  start from.  The result is the block with its sub-layers and the merged shape.

  The first, middle and last units are created with \<open>activation=self.activation\<close>.  The
  first of these reads comes after the projection and the dropout layer have been built;
  it raises \<open>AttributeError\<close> on a block whose constructor was given no activation.
\<close>

definition read_activation :: "block \<Rightarrow> error + string" where
  "read_activation self =
     (case activation self of
        None \<Rightarrow> Inl (AttributeError ''object has no attribute 'activation' '')
      | Some act \<Rightarrow> Inr act)"

definition build_branches ::
  "block \<Rightarrow> int \<Rightarrow> layer option \<Rightarrow> layer option \<Rightarrow> bool \<Rightarrow> int_or_tuple \<Rightarrow> int
     \<Rightarrow> (nat \<Rightarrow> layer) \<Rightarrow> shape \<Rightarrow> error + (built \<times> shape)" where
  "build_branches self cin uppool padding identity_left st first_filters mk next_shape =
     (let branch_left =
            (if identity_left then None
             else Some (AConv \<lparr> c_rank = rank self, c_filters = ofilters self, c_lgroups = None,
                                 c_kernel_size = IntArg 1, c_strides = st,
                                 c_data_format = data_format self, c_dilation_rate = IntArg 1,
                                 c_use_bias = None \<rparr>));
          dropout_layer = return_dropout (dropout self);
          first = NACUnit \<lparr> c_rank = rank self, c_filters = first_filters, c_lgroups = None,
                            c_kernel_size = IntArg 1, c_strides = st,
                            c_data_format = data_format self, c_dilation_rate = IntArg 1,
                            c_use_bias = None \<rparr>;
          last_unit = NACUnit \<lparr> c_rank = rank self, c_filters = ofilters self, c_lgroups = None,
                            c_kernel_size = IntArg 1, c_strides = IntArg 1,
                            c_data_format = data_format self, c_dilation_rate = IntArg 1,
                            c_use_bias = Some identity_left \<rparr>
      in
      sum_bind (opt_layer_shape branch_left next_shape) (\<lambda>left_shape.
      sum_bind (opt_layer_shape dropout_layer next_shape) (\<lambda>right_shape0.
      sum_bind (read_activation self) (\<lambda>act.
      sum_bind (layer_shape first right_shape0) (\<lambda>right_shape1.
      sum_bind (build_middle mk [0..<nat (depth self)] right_shape1) (\<lambda>(middles, right_shape2).
      sum_bind (layer_shape last_unit right_shape2) (\<lambda>right_shape.
      sum_bind (add_output_shape left_shape right_shape) (\<lambda>merged.
      Inr (\<lparr> blk = self, channelIn = cin,
              layer_uppool = uppool, layer_padding = padding,
              layer_branch_left = branch_left, layer_dropout = dropout_layer,
              layer_first = first, layer_middle = middles, layer_last = last_unit,
              layer_merge = Add, layer_cropping = None,
              merge_shapes = (left_shape, right_shape) \<rparr>, merged)))))))))"

subsection \<open>build of the residual block\<close>

definition Residual_middle :: "block \<Rightarrow> int \<Rightarrow> nat \<Rightarrow> layer" where
  "Residual_middle self lf i =
     NACUnit \<lparr> c_rank = rank self, c_filters = lf, c_lgroups = None,
               c_kernel_size = TupleArg (kernel_size self), c_strides = IntArg 1,
               c_data_format = data_format self,
               c_dilation_rate = (if i = 0 then TupleArg (dilation_rate self) else IntArg 1),
               c_use_bias = None \<rparr>"

definition Residual_build :: "block \<Rightarrow> shape \<Rightarrow> error + built" where
  "Residual_build self input_shape =
     (if length input_shape < rank self + 2
      then Inl (ValueError ''Shape must have rank at least rank + 2'')
      else
      case channel_axis_dim (data_format self) input_shape of
        None \<Rightarrow> Inl (ValueError ''The channel dimension of the inputs should be defined. Found `None`.'')
      | Some cin \<Rightarrow>
        let lf = (case lfilters self of None \<Rightarrow> max 1 (cin div 2) | Some l \<Rightarrow> l) in
        sum_bind (build_branches (self\<lparr>lfilters := Some lf\<rparr>) cin None None
                    (check_dl_func (strides self) \<and> ofilters self = cin)
                    (TupleArg (strides self)) lf (Residual_middle self lf) input_shape)
          (\<lambda>(b, merged). Inr b))"

subsection \<open>build of the ResNeXt block\<close>

text \<open>\<open>_get_prod\<close>: the product of the entries; on an empty tuple \<open>reduce\<close> raises
  \<open>TypeError\<close>, the tuple itself is returned and the arithmetic that follows raises.\<close>

definition get_prod :: "int list \<Rightarrow> error + int" where
  "get_prod x =
     (case x of
        [] \<Rightarrow> Inl (TypeError ''can't multiply sequence by non-int of type 'float' '')
      | a # as \<Rightarrow> Inr (foldl (\<lambda>a b. a * b) a as))"

text \<open>
  The latent counts are estimated in floating point.  The two computations are
  parameters of the model, applied to the integers the code feeds them:
  \<open>est_lfilters f dk g cin cout\<close> stands for
  \<open>int(round(_cal_quad_root(a = dk*g, b = (cin+cout)*g, c = -(cin/2)*(cin+cout+dk*(cin/2)))))\<close>
  and \<open>est_lgroups f dk lf cin cout\<close> for
  \<open>int(round((cin/2/lf)*(dk*(cin/2)+cin+cout)/(dk*lf+cin+cout)))\<close>, where
  \<open>dk = self.depth * _get_prod(self.kernel_size)\<close>.  Both can raise (a division by zero,
  a negative discriminant).
\<close>

record float_est =
  est_lfilters :: "int \<Rightarrow> int \<Rightarrow> int \<Rightarrow> int \<Rightarrow> error + int"
  est_lgroups :: "int \<Rightarrow> int \<Rightarrow> int \<Rightarrow> int \<Rightarrow> error + int"

definition infer_latent :: "float_est \<Rightarrow> block \<Rightarrow> int \<Rightarrow> error + (int \<times> int)" where
  "infer_latent f self cin =
     (case (lgroups self, lfilters self) of
        (Some g, Some lf) \<Rightarrow> Inr (g, lf)
      | (None, None) \<Rightarrow>
          sum_bind (get_prod (kernel_size self)) (\<lambda>k.
          sum_bind (est_lfilters f (depth self * k) 32 cin (ofilters self)) (\<lambda>x.
          Inr (32, max 1 x)))
      | (Some g, None) \<Rightarrow>
          sum_bind (get_prod (kernel_size self)) (\<lambda>k.
          sum_bind (est_lfilters f (depth self * k) g cin (ofilters self)) (\<lambda>x.
          Inr (g, max 1 x)))
      | (None, Some lf) \<Rightarrow>
          sum_bind (get_prod (kernel_size self)) (\<lambda>k.
          sum_bind (est_lgroups f (depth self * k) lf cin (ofilters self)) (\<lambda>x.
          Inr (max 1 x, lf))))"

definition Resnext_middle :: "block \<Rightarrow> int \<Rightarrow> int \<Rightarrow> nat \<Rightarrow> layer" where
  "Resnext_middle self g wholeLfilters i =
     NACUnit \<lparr> c_rank = rank self, c_filters = wholeLfilters, c_lgroups = Some g,
               c_kernel_size = TupleArg (kernel_size self), c_strides = IntArg 1,
               c_data_format = data_format self,
               c_dilation_rate = (if i = 0 then TupleArg (dilation_rate self) else IntArg 1),
               c_use_bias = None \<rparr>"

definition Resnext_build :: "float_est \<Rightarrow> block \<Rightarrow> shape \<Rightarrow> error + built" where
  "Resnext_build f self input_shape =
     (if length input_shape < rank self + 2
      then Inl (ValueError ''Shape must have rank at least rank + 2'')
      else
      case channel_axis_dim (data_format self) input_shape of
        None \<Rightarrow> Inl (ValueError ''The channel dimension of the inputs should be defined. Found `None`.'')
      | Some cin \<Rightarrow>
        sum_bind (infer_latent f self cin) (\<lambda>(g, lf).
        let wholeLfilters = g * lf in
        sum_bind (build_branches (self\<lparr>lgroups := Some g, lfilters := Some lf\<rparr>) cin None None
                    (check_dl_func (strides self) \<and> ofilters self = cin)
                    (TupleArg (strides self)) wholeLfilters
                    (Resnext_middle self g wholeLfilters) input_shape)
          (\<lambda>(b, merged). Inr b)))"

subsection \<open>Padding and cropping inferred from the desired output shape\<close>

text \<open>
  One pass of the loop over the axes: \<open>d\<close> is \<open>get_shape_diff\<close>, the result is the pair
  appended to \<open>output_padding\<close> and the pair appended to \<open>output_cropping\<close>.
\<close>

definition infer_axis :: "int \<Rightarrow> (int \<times> int) \<times> (int \<times> int)" where
  "infer_axis d =
     (if d > 0 then ((d div 2, d div 2 + d mod 2), (0, 0))
      else if d < 0 then ((0, 0), ((- d) div 2, (- d) div 2 + (- d) mod 2))
      else ((0, 0), (0, 0)))"

fun infer_axes ::
  "nat list \<Rightarrow> dim list \<Rightarrow> dim list \<Rightarrow> int list \<Rightarrow> int list
     \<Rightarrow> error + ((int \<times> int) list \<times> (int \<times> int) list)" where
  "infer_axes [] l_output_mshape l_input_shape st dl = Inr ([], [])"
| "infer_axes (i # is) l_output_mshape l_input_shape st dl =
     (if length l_output_mshape \<le> i \<or> length l_input_shape \<le> i
      then Inl (IndexError ''list index out of range'')
      else
      case (l_output_mshape ! i, l_input_shape ! i) of
        (Some m, Some n) \<Rightarrow>
          (case infer_axis (m - n * max (st ! i) (dl ! i)) of (p, c) \<Rightarrow>
           sum_bind (infer_axes is l_output_mshape l_input_shape st dl) (\<lambda>(ps, cs).
           Inr (p # ps, c # cs)))
      | _ \<Rightarrow> Inl (TypeError ''unsupported operand type(s): NoneType''))"

text \<open>The counters \<open>deFlag_padding\<close> and \<open>deFlag_cropping\<close>.\<close>

definition deFlag :: "nat \<Rightarrow> (int \<times> int) list \<Rightarrow> nat" where
  "deFlag rk xs = length (filter (\<lambda>i. fst (xs ! i) = 0 \<and> snd (xs ! i) = 0) [0..<rk])"

definition infer_padding_cropping ::
  "block \<Rightarrow> shape \<Rightarrow> shape \<Rightarrow> error + (pad_arg option \<times> pad_arg option)" where
  "infer_padding_cropping self input_shape mshape =
     sum_bind (infer_axes [0..<rank self] (butlast (tl mshape)) (butlast (tl input_shape))
                 (strides self) (dilation_rate self)) (\<lambda>(ps, cs).
     Inr (if deFlag (rank self) ps \<ge> rank self then None else Some (PadPairs ps),
          if deFlag (rank self) cs \<ge> rank self then None else Some (PadPairs cs)))"

text \<open>
  The upsampling layer and the optional padding layer, by rank.  For rank 1 the code
  subscripts the layer object it has just created (\<open>ZeroPadding1D(...)[0]\<close>,
  \<open>Cropping1D(...)[0]\<close>), which raises whenever the layer is asked for.
\<close>

definition build_uppool_padding ::
  "block \<Rightarrow> pad_arg option \<Rightarrow> shape \<Rightarrow> error + (layer \<times> layer option \<times> shape)" where
  "build_uppool_padding self opad input_shape =
     (if rank self = 1 then
        (let uppool = UpSampling [strides self ! 0] channels_last in
         sum_bind (layer_shape uppool input_shape) (\<lambda>next_shape.
         case opad of
           None \<Rightarrow> Inr (uppool, None, next_shape)
         | Some p \<Rightarrow>
             sum_bind (normalize_pad1 p) (\<lambda>ps.
             Inl (TypeError ''ZeroPadding1D object is not subscriptable''))))
      else if rank self = 2 \<or> rank self = 3 then
        (let uppool = UpSampling (strides self) (data_format self) in
         sum_bind (layer_shape uppool input_shape) (\<lambda>next_shape.
         case opad of
           None \<Rightarrow> Inr (uppool, None, next_shape)
         | Some p \<Rightarrow>
             sum_bind (normalize_pad (rank self) p) (\<lambda>ps.
             sum_bind (layer_shape (ZeroPadding ps (data_format self)) next_shape) (\<lambda>padded.
             Inr (uppool, Some (ZeroPadding ps (data_format self)), padded)))))
      else Inl (ValueError ''Rank of the deconvolution should be 1, 2 or 3.''))"

text \<open>
  The cropping layer.  \<open>Cropping2D\<close> and \<open>Cropping3D\<close> are created without a
  \<open>data_format\<close>, so they take the framework's global one, \<open>idf\<close>.
\<close>

definition build_cropping ::
  "data_format \<Rightarrow> block \<Rightarrow> pad_arg option \<Rightarrow> shape \<Rightarrow> error + layer option" where
  "build_cropping idf self ocrop next_shape =
     (case ocrop of
        None \<Rightarrow> Inr None
      | Some c \<Rightarrow>
          if rank self = 1 then
            sum_bind (normalize_pad1 c) (\<lambda>cs.
            Inl (TypeError ''Cropping1D object is not subscriptable''))
          else if rank self = 2 \<or> rank self = 3 then
            sum_bind (normalize_pad (rank self) c) (\<lambda>cs.
            sum_bind (layer_shape (Cropping cs idf) next_shape) (\<lambda>cropped.
            Inr (Some (Cropping cs idf))))
          else Inl (ValueError ''Rank of the deconvolution should be 1, 2 or 3.''))"

subsection \<open>build of the transposed blocks\<close>

definition ResidualTranspose_build :: "data_format \<Rightarrow> block \<Rightarrow> shape \<Rightarrow> error + built" where
  "ResidualTranspose_build idf self input_shape =
     (if length input_shape < rank self + 2
      then Inl (ValueError ''Shape must have rank at least rank + 2'')
      else
      case channel_axis_dim (data_format self) input_shape of
        None \<Rightarrow> Inl (ValueError ''The channel dimension of the inputs should be defined. Found `None`.'')
      | Some cin \<Rightarrow>
        let lf = (case lfilters self of None \<Rightarrow> max 1 (cin div 2) | Some l \<Rightarrow> l) in
        sum_bind (case output_mshape self of
                    None \<Rightarrow> Inr (output_padding self, output_cropping self)
                  | Some m \<Rightarrow> infer_padding_cropping self input_shape m) (\<lambda>(opad, ocrop).
        sum_bind (build_uppool_padding self opad input_shape) (\<lambda>(uppool, padding, next_shape).
        sum_bind (build_branches
                    (self\<lparr>lfilters := Some lf, output_padding := opad, output_cropping := ocrop\<rparr>)
                    cin (Some uppool) padding (ofilters self = cin) (IntArg 1) lf
                    (Residual_middle self lf) next_shape) (\<lambda>(b, merged).
        sum_bind (build_cropping idf self ocrop merged) (\<lambda>cropping.
        Inr (b\<lparr>layer_cropping := cropping\<rparr>))))))"

definition ResnextTranspose_build ::
  "data_format \<Rightarrow> float_est \<Rightarrow> block \<Rightarrow> shape \<Rightarrow> error + built" where
  "ResnextTranspose_build idf f self input_shape =
     (if length input_shape < rank self + 2
      then Inl (ValueError ''Shape must have rank at least rank + 2'')
      else
      case channel_axis_dim (data_format self) input_shape of
        None \<Rightarrow> Inl (ValueError ''The channel dimension of the inputs should be defined. Found `None`.'')
      | Some cin \<Rightarrow>
        sum_bind (infer_latent f self cin) (\<lambda>(g, lf).
        let wholeLfilters = g * lf in
        sum_bind (case output_mshape self of
                    None \<Rightarrow> Inr (output_padding self, output_cropping self)
                  | Some m \<Rightarrow> infer_padding_cropping self input_shape m) (\<lambda>(opad, ocrop).
        sum_bind (build_uppool_padding self opad input_shape) (\<lambda>(uppool, padding, next_shape).
        sum_bind (build_branches
                    (self\<lparr>lgroups := Some g, lfilters := Some lf, output_padding := opad,
                          output_cropping := ocrop\<rparr>)
                    cin (Some uppool) padding (ofilters self = cin) (IntArg 1) wholeLfilters
                    (Resnext_middle self g wholeLfilters) next_shape) (\<lambda>(b, merged).
        sum_bind (build_cropping idf self ocrop merged) (\<lambda>cropping.
        Inr (b\<lparr>layer_cropping := cropping\<rparr>)))))))"

subsection \<open>call and compute_output_shape\<close>

text \<open>
  \<open>call\<close> applies the sub-layers to tensors.  What a framework layer does to a tensor is
  not this module's business: \<open>app l x\<close> stands for the call \<open>l(x)\<close> of a sub-layer with
  one input and \<open>mrg l xs\<close> for the call of the merge layer on a list, for any type \<open>'t\<close>
  of tensors.  The loop over the middle units reads unit \<open>i\<close> by its attribute name; a
  missing attribute raises.
\<close>

fun call_middle :: "(layer \<Rightarrow> 't \<Rightarrow> 't) \<Rightarrow> layer list \<Rightarrow> nat list \<Rightarrow> 't \<Rightarrow> error + 't" where
  "call_middle app ls [] x = Inr x"
| "call_middle app ls (i # is) x =
     (if i < length ls then call_middle app ls is (app (ls ! i) x)
      else Inl (AttributeError ''layer_middle''))"

fun shape_middle :: "layer list \<Rightarrow> nat list \<Rightarrow> shape \<Rightarrow> error + shape" where
  "shape_middle ls [] s = Inr s"
| "shape_middle ls (i # is) s =
     (if i < length ls then sum_bind (layer_shape (ls ! i) s) (\<lambda>s'. shape_middle ls is s')
      else Inl (AttributeError ''layer_middle''))"

fun merge_output_shape :: "layer \<Rightarrow> shape \<Rightarrow> shape \<Rightarrow> error + shape" where
  "merge_output_shape Add l r = add_output_shape l r"
| "merge_output_shape x l r = Inl (TypeError ''not a merge layer'')"

definition Residual_call ::
  "(layer \<Rightarrow> 't \<Rightarrow> 't) \<Rightarrow> (layer \<Rightarrow> 't list \<Rightarrow> 't) \<Rightarrow> built \<Rightarrow> 't \<Rightarrow> error + 't" where
  "Residual_call app mrg self inputs =
     (let branch_left =
            (case layer_branch_left self of Some l \<Rightarrow> app l inputs | None \<Rightarrow> inputs);
          branch_right0 =
            (case layer_dropout self of Some l \<Rightarrow> app l inputs | None \<Rightarrow> inputs);
          branch_right1 = app (layer_first self) branch_right0
      in
      sum_bind (call_middle app (layer_middle self) [0..<nat (depth (blk self))] branch_right1)
        (\<lambda>branch_right2.
      Inr (mrg (layer_merge self) [branch_left, app (layer_last self) branch_right2])))"

definition Residual_compute_output_shape :: "built \<Rightarrow> shape \<Rightarrow> error + shape" where
  "Residual_compute_output_shape self input_shape =
     sum_bind (opt_layer_shape (layer_branch_left self) input_shape) (\<lambda>branch_left_shape.
     sum_bind (opt_layer_shape (layer_dropout self) input_shape) (\<lambda>branch_right_shape0.
     sum_bind (layer_shape (layer_first self) branch_right_shape0) (\<lambda>branch_right_shape1.
     sum_bind (shape_middle (layer_middle self) [0..<nat (depth (blk self))] branch_right_shape1)
       (\<lambda>branch_right_shape2.
     sum_bind (layer_shape (layer_last self) branch_right_shape2) (\<lambda>branch_right_shape.
     merge_output_shape (layer_merge self) branch_left_shape branch_right_shape)))))"

definition Resnext_call ::
  "(layer \<Rightarrow> 't \<Rightarrow> 't) \<Rightarrow> (layer \<Rightarrow> 't list \<Rightarrow> 't) \<Rightarrow> built \<Rightarrow> 't \<Rightarrow> error + 't" where
  "Resnext_call app mrg self inputs =
     (let branch_left =
            (case layer_branch_left self of Some l \<Rightarrow> app l inputs | None \<Rightarrow> inputs);
          branch_right0 =
            (case layer_dropout self of Some l \<Rightarrow> app l inputs | None \<Rightarrow> inputs);
          branch_right1 = app (layer_first self) branch_right0
      in
      sum_bind (call_middle app (layer_middle self) [0..<nat (depth (blk self))] branch_right1)
        (\<lambda>branch_right2.
      Inr (mrg (layer_merge self) [branch_left, app (layer_last self) branch_right2])))"

definition Resnext_compute_output_shape :: "built \<Rightarrow> shape \<Rightarrow> error + shape" where
  "Resnext_compute_output_shape self input_shape =
     sum_bind (opt_layer_shape (layer_branch_left self) input_shape) (\<lambda>branch_left_shape.
     sum_bind (opt_layer_shape (layer_dropout self) input_shape) (\<lambda>branch_right_shape0.
     sum_bind (layer_shape (layer_first self) branch_right_shape0) (\<lambda>branch_right_shape1.
     sum_bind (shape_middle (layer_middle self) [0..<nat (depth (blk self))] branch_right_shape1)
       (\<lambda>branch_right_shape2.
     sum_bind (layer_shape (layer_last self) branch_right_shape2) (\<lambda>branch_right_shape.
     merge_output_shape (layer_merge self) branch_left_shape branch_right_shape)))))"

definition ResidualTranspose_call ::
  "(layer \<Rightarrow> 't \<Rightarrow> 't) \<Rightarrow> (layer \<Rightarrow> 't list \<Rightarrow> 't) \<Rightarrow> built \<Rightarrow> 't \<Rightarrow> error + 't" where
  "ResidualTranspose_call app mrg self inputs =
     (case layer_uppool self of
        None \<Rightarrow> Inl (AttributeError ''layer_uppool'')
      | Some uppool \<Rightarrow>
        let outputs0 = app uppool inputs;
            outputs =
              (case layer_padding self of Some l \<Rightarrow> app l outputs0 | None \<Rightarrow> outputs0);
            branch_left =
              (case layer_branch_left self of Some l \<Rightarrow> app l outputs | None \<Rightarrow> outputs);
            branch_right0 =
              (case layer_dropout self of Some l \<Rightarrow> app l outputs | None \<Rightarrow> outputs);
            branch_right1 = app (layer_first self) branch_right0
        in
        sum_bind (call_middle app (layer_middle self) [0..<nat (depth (blk self))] branch_right1)
          (\<lambda>branch_right2.
        let merged = mrg (layer_merge self) [branch_left, app (layer_last self) branch_right2]
        in Inr (case layer_cropping self of Some l \<Rightarrow> app l merged | None \<Rightarrow> merged)))"

definition ResidualTranspose_compute_output_shape :: "built \<Rightarrow> shape \<Rightarrow> error + shape" where
  "ResidualTranspose_compute_output_shape self input_shape =
     (if length input_shape < rank (blk self) + 2
      then Inl (ValueError ''Shape must have rank at least rank + 2'')
      else
      case layer_uppool self of
        None \<Rightarrow> Inl (AttributeError ''layer_uppool'')
      | Some uppool \<Rightarrow>
        sum_bind (layer_shape uppool input_shape) (\<lambda>next_shape0.
        sum_bind (opt_layer_shape (layer_padding self) next_shape0) (\<lambda>next_shape.
        sum_bind (opt_layer_shape (layer_branch_left self) next_shape) (\<lambda>branch_left_shape.
        sum_bind (opt_layer_shape (layer_dropout self) next_shape) (\<lambda>branch_right_shape0.
        sum_bind (layer_shape (layer_first self) branch_right_shape0) (\<lambda>branch_right_shape1.
        sum_bind (shape_middle (layer_middle self) [0..<nat (depth (blk self))] branch_right_shape1)
          (\<lambda>branch_right_shape2.
        sum_bind (layer_shape (layer_last self) branch_right_shape2) (\<lambda>branch_right_shape.
        sum_bind (merge_output_shape (layer_merge self) branch_left_shape branch_right_shape)
          (\<lambda>merged.
        opt_layer_shape (layer_cropping self) merged)))))))))"

definition ResnextTranspose_call ::
  "(layer \<Rightarrow> 't \<Rightarrow> 't) \<Rightarrow> (layer \<Rightarrow> 't list \<Rightarrow> 't) \<Rightarrow> built \<Rightarrow> 't \<Rightarrow> error + 't" where
  "ResnextTranspose_call app mrg self inputs =
     (case layer_uppool self of
        None \<Rightarrow> Inl (AttributeError ''layer_uppool'')
      | Some uppool \<Rightarrow>
        let outputs0 = app uppool inputs;
            outputs =
              (case layer_padding self of Some l \<Rightarrow> app l outputs0 | None \<Rightarrow> outputs0);
            branch_left =
              (case layer_branch_left self of Some l \<Rightarrow> app l outputs | None \<Rightarrow> outputs);
            branch_right0 =
              (case layer_dropout self of Some l \<Rightarrow> app l outputs | None \<Rightarrow> outputs);
            branch_right1 = app (layer_first self) branch_right0
        in
        sum_bind (call_middle app (layer_middle self) [0..<nat (depth (blk self))] branch_right1)
          (\<lambda>branch_right2.
        let merged = mrg (layer_merge self) [branch_left, app (layer_last self) branch_right2]
        in Inr (case layer_cropping self of Some l \<Rightarrow> app l merged | None \<Rightarrow> merged)))"

definition ResnextTranspose_compute_output_shape :: "built \<Rightarrow> shape \<Rightarrow> error + shape" where
  "ResnextTranspose_compute_output_shape self input_shape =
     (if length input_shape < rank (blk self) + 2
      then Inl (ValueError ''Shape must have rank at least rank + 2'')
      else
      case layer_uppool self of
        None \<Rightarrow> Inl (AttributeError ''layer_uppool'')
      | Some uppool \<Rightarrow>
        sum_bind (layer_shape uppool input_shape) (\<lambda>next_shape0.
        sum_bind (opt_layer_shape (layer_padding self) next_shape0) (\<lambda>next_shape.
        sum_bind (opt_layer_shape (layer_branch_left self) next_shape) (\<lambda>branch_left_shape.
        sum_bind (opt_layer_shape (layer_dropout self) next_shape) (\<lambda>branch_right_shape0.
        sum_bind (layer_shape (layer_first self) branch_right_shape0) (\<lambda>branch_right_shape1.
        sum_bind (shape_middle (layer_middle self) [0..<nat (depth (blk self))] branch_right_shape1)
          (\<lambda>branch_right_shape2.
        sum_bind (layer_shape (layer_last self) branch_right_shape2) (\<lambda>branch_right_shape.
        sum_bind (merge_output_shape (layer_merge self) branch_left_shape branch_right_shape)
          (\<lambda>merged.
        opt_layer_shape (layer_cropping self) merged)))))))))"

text \<open>build and call of each class, with the parameters each needs.\<close>

fun block_build :: "kind \<Rightarrow> data_format \<Rightarrow> float_est \<Rightarrow> block \<Rightarrow> shape \<Rightarrow> error + built" where
  "block_build Residual idf f = Residual_build"
| "block_build ResidualTranspose idf f = ResidualTranspose_build idf"
| "block_build Resnext idf f = Resnext_build f"
| "block_build ResnextTranspose idf f = ResnextTranspose_build idf f"

fun block_compute_output_shape :: "kind \<Rightarrow> built \<Rightarrow> shape \<Rightarrow> error + shape" where
  "block_compute_output_shape Residual = Residual_compute_output_shape"
| "block_compute_output_shape ResidualTranspose = ResidualTranspose_compute_output_shape"
| "block_compute_output_shape Resnext = Resnext_compute_output_shape"
| "block_compute_output_shape ResnextTranspose = ResnextTranspose_compute_output_shape"

fun is_transposed :: "kind \<Rightarrow> bool" where
  "is_transposed Residual = False"
| "is_transposed ResidualTranspose = True"
| "is_transposed Resnext = False"
| "is_transposed ResnextTranspose = True"

fun is_resnext :: "kind \<Rightarrow> bool" where
  "is_resnext Residual = False"
| "is_resnext ResidualTranspose = False"
| "is_resnext Resnext = True"
| "is_resnext ResnextTranspose = True"

text \<open>The four \<open>call\<close> methods by class.\<close>

fun block_call ::
  "kind \<Rightarrow> (layer \<Rightarrow> 't \<Rightarrow> 't) \<Rightarrow> (layer \<Rightarrow> 't list \<Rightarrow> 't) \<Rightarrow> built \<Rightarrow> 't \<Rightarrow> error + 't" where
  "block_call Residual = Residual_call"
| "block_call ResidualTranspose = ResidualTranspose_call"
| "block_call Resnext = Resnext_call"
| "block_call ResnextTranspose = ResnextTranspose_call"

text \<open>
  The arguments of a convolutional sub-layer, and the convolutional sub-layers of a built
  block: the projection (when there is one), the first unit, the middle units and the
  last unit.
\<close>

fun cfg_of :: "layer \<Rightarrow> conv_cfg option" where
  "cfg_of (AConv cfg) = Some cfg"
| "cfg_of (NACUnit cfg) = Some cfg"
| "cfg_of l = None"

definition conv_units :: "built \<Rightarrow> layer list" where
  "conv_units self =
     (case layer_branch_left self of None \<Rightarrow> [] | Some l \<Rightarrow> [l])
     @ [layer_first self] @ layer_middle self @ [layer_last self]"

text \<open>An optional sub-layer applied to a tensor, as \<open>call\<close> does.\<close>

definition app_opt :: "(layer \<Rightarrow> 't \<Rightarrow> 't) \<Rightarrow> layer option \<Rightarrow> 't \<Rightarrow> 't" where
  "app_opt app l x = (case l of Some y \<Rightarrow> app y x | None \<Rightarrow> x)"

text \<open>The class a transposed class adds the upsampling to.\<close>

fun plain_of :: "kind \<Rightarrow> kind" where
  "plain_of Residual = Residual"
| "plain_of ResidualTranspose = Residual"
| "plain_of Resnext = Resnext"
| "plain_of ResnextTranspose = Resnext"

subsection \<open>Concrete inputs\<close>

text \<open>
  The arguments of a block of depth 3 with 8 output filters, a kernel of size 3 and the
  activation \<open>'relu'\<close>.
\<close>

definition ex_args :: init_args where
  "ex_args = \<lparr> a_depth = 3, a_ofilters = 8, a_kernel_size = IntArg 3, a_lgroups = None,
     a_lfilters = None, a_strides = IntArg 1, a_output_mshape = None, a_output_padding = None,
     a_output_cropping = None, a_data_format = None, a_dilation_rate = IntArg 1,
     a_dropout = None, a_activation = Some ''relu'', a_high_activation = None \<rparr>"

text \<open>
  A tensor that records the sub-layers applied to it, in order: the call of a sub-layer
  appends the layer, the merge concatenates the records of its inputs and appends itself.
\<close>

definition trace_app :: "layer \<Rightarrow> layer list \<Rightarrow> layer list" where
  "trace_app l x = x @ [l]"

definition trace_mrg :: "layer \<Rightarrow> layer list list \<Rightarrow> layer list" where
  "trace_mrg l xs = concat xs @ [l]"

text \<open>A channels-last input of rank 2 with 8 by 8 positions and 4 channels.\<close>

definition ex_shape :: shape where
  "ex_shape = [None, Some 8, Some 8, Some 4]"

text \<open>The block that \<open>Residual2D(**ex_args)\<close> constructs.\<close>

definition ex_block :: block where
  "ex_block = \<lparr> rank = 2, depth = 1, ofilters = 8, lgroups = None, lfilters = None,
       kernel_size = [3, 3], strides = [1, 1], output_mshape = None, output_padding = None,
       output_cropping = None, data_format = channels_last, dilation_rate = [1, 1],
       dropout = None, activation = Some ''relu'', high_activation = None \<rparr>"

text \<open>
  The floating-point estimate at the one input used below: for depth 3, a 3 by 3 kernel,
  32 groups, 4 input and 8 output channels the root of the quadratic is about 0.141, which
  rounds to 0.
\<close>

definition ex_est :: float_est where
  "ex_est =
     \<lparr> est_lfilters = (\<lambda>dk g cin cout.
          if dk = 9 \<and> g = 32 \<and> cin = 4 \<and> cout = 8 then Inr 0
          else Inl (ValueError ''not tabulated'')),
       est_lgroups = (\<lambda>dk lf cin cout. Inl (ValueError ''not tabulated'')) \<rparr>"

text \<open>
  The same arguments with the latent counts given, 2 groups of 3 filters, and the block
  that \<open>Resnext2D\<close> constructs from them.
\<close>

definition ex_gargs :: init_args where
  "ex_gargs = ex_args\<lparr>a_lgroups := Some 2, a_lfilters := Some 3\<rparr>"

definition ex_gblock :: block where
  "ex_gblock = ex_block\<lparr>lgroups := Some 2, lfilters := Some 3\<rparr>"

text \<open>
  A transposed block of rank 2 with strides 2 and the desired output shape 17 by 15: on the
  8 by 8 input the upsampling gives 16 by 16, so the first axis needs one row of padding
  and the second one column of cropping.  \<open>ex_tbuilt\<close> is what \<open>build\<close> makes of it.
\<close>

definition ex_targs :: init_args where
  "ex_targs = ex_args\<lparr>a_strides := IntArg 2,
                       a_output_mshape := Some [None, Some 17, Some 15, Some 8]\<rparr>"

definition ex_tblock :: block where
  "ex_tblock = \<lparr> rank = 2, depth = 1, ofilters = 8, lgroups = None, lfilters = None,
       kernel_size = [3, 3], strides = [2, 2],
       output_mshape = Some [None, Some 17, Some 15, Some 8],
       output_padding = None, output_cropping = None, data_format = channels_last,
       dilation_rate = [1, 1], dropout = None, activation = Some ''relu'',
       high_activation = None \<rparr>"

definition ex_tbuilt :: built where
  "ex_tbuilt =
     \<lparr> blk = ex_tblock\<lparr>lfilters := Some 2,
                        output_padding := Some (PadPairs [(0, 1), (0, 0)]),
                        output_cropping := Some (PadPairs [(0, 0), (0, 1)])\<rparr>,
       channelIn = 4,
       layer_uppool = Some (UpSampling [2, 2] channels_last),
       layer_padding = Some (ZeroPadding [(0, 1), (0, 0)] channels_last),
       layer_branch_left =
         Some (AConv \<lparr> c_rank = 2, c_filters = 8, c_lgroups = None,
                       c_kernel_size = IntArg 1, c_strides = IntArg 1,
                       c_data_format = channels_last, c_dilation_rate = IntArg 1,
                       c_use_bias = None \<rparr>),
       layer_dropout = None,
       layer_first =
         NACUnit \<lparr> c_rank = 2, c_filters = 2, c_lgroups = None,
                   c_kernel_size = IntArg 1, c_strides = IntArg 1,
                   c_data_format = channels_last, c_dilation_rate = IntArg 1,
                   c_use_bias = None \<rparr>,
       layer_middle =
         [NACUnit \<lparr> c_rank = 2, c_filters = 2, c_lgroups = None,
                    c_kernel_size = TupleArg [3, 3], c_strides = IntArg 1,
                    c_data_format = channels_last, c_dilation_rate = TupleArg [1, 1],
                    c_use_bias = None \<rparr>],
       layer_last =
         NACUnit \<lparr> c_rank = 2, c_filters = 8, c_lgroups = None,
                   c_kernel_size = IntArg 1, c_strides = IntArg 1,
                   c_data_format = channels_last, c_dilation_rate = IntArg 1,
                   c_use_bias = Some False \<rparr>,
       layer_merge = Add,
       layer_cropping = Some (Cropping [(0, 0), (0, 1)] channels_last),
       merge_shapes = ([None, Some 17, Some 16, Some 8], [None, Some 17, Some 16, Some 8]) \<rparr>"

text \<open>
  A transposed block with \<open>dilation_rate = 2\<close> and the desired output shape 20 by 20, and
  a \<open>channels_first\<close> block with strides 2 whose desired output shape is twice its 8 by 8
  input of 3 channels.
\<close>

definition ex_dargs :: init_args where
  "ex_dargs = ex_args\<lparr>a_dilation_rate := IntArg 2,
                       a_output_mshape := Some [None, Some 20, Some 20, Some 8]\<rparr>"

definition ex_cfargs :: init_args where
  "ex_cfargs = ex_args\<lparr>a_strides := IntArg 2, a_data_format := Some channels_first,
                        a_output_mshape := Some [None, Some 8, Some 16, Some 16]\<rparr>"

definition ex_cf_shape :: shape where
  "ex_cf_shape = [None, Some 3, Some 8, Some 8]"

section \<open>Properties\<close>

subsection \<open>Sequencing and normalization\<close>

lemma sum_bind_Inr_iff: "sum_bind m f = Inr y \<longleftrightarrow> (\<exists>x. m = Inr x \<and> f x = Inr y)"
  by (cases m) auto

lemma sum_bind_Inl_iff:
  "sum_bind m f = Inl e \<longleftrightarrow> m = Inl e \<or> (\<exists>x. m = Inr x \<and> f x = Inl e)"
  by (cases m) auto

lemma normalize_tuple_length: "normalize_tuple v n name = Inr xs \<Longrightarrow> length xs = n"
  by (auto simp: normalize_tuple_def split: int_or_tuple.splits if_splits)

lemma normalize_tuple_Inl: "normalize_tuple v n name = Inl e \<Longrightarrow> e = ValueError name"
  by (auto simp: normalize_tuple_def split: int_or_tuple.splits if_splits)

lemma normalize_tuple_idem: "length xs = n \<Longrightarrow> normalize_tuple (TupleArg xs) n name = Inr xs"
  by (simp add: normalize_tuple_def)

lemmas init_defs =
  Residual_init_def ResidualTranspose_init_def Resnext_init_def ResnextTranspose_init_def

subsection \<open>The constructors' checks\<close>

text \<open>
  C8, as stated, fails: the constructor raises \<open>ValueError\<close> for a depth of 3 as well,
  when both \<open>strides\<close> and \<open>dilation_rate\<close> differ from 1 (the check at the end of the
  argument normalization).  Here \<open>Residual1D(depth=3, ofilters=8, kernel_size=3,
  strides=2, dilation_rate=2)\<close>.
\<close>

theorem init_ValueError_iff_depth_counterexample:
  "\<not> (is_ValueError (block_init Residual channels_last 1
         (ex_args\<lparr>a_strides := IntArg 2, a_dilation_rate := IntArg 2\<rparr>))
       \<longleftrightarrow> a_depth (ex_args\<lparr>a_strides := IntArg 2, a_dilation_rate := IntArg 2\<rparr>) < 3)"
  by (simp add: ex_args_def Residual_init_def normalize_tuple_def check_dl_func_def)

text \<open>
  C8, amended: for every block class and rank, the constructor raises the \<open>ValueError\<close> of
  the depth check (\<open>'The depth of the ... block should be >= 3.'\<close>) if and only if the
  depth argument is less than 3; and whenever the constructor returns, the depth argument
  is at least 3 and the stored \<open>self.depth\<close> is the argument minus 2, which is at least 1.
\<close>

theorem init_depth_check:
  "(block_init k idf rk a = Inl (ValueError (depth_message k)) \<longleftrightarrow> a_depth a < 3) \<and>
   (\<forall>b. block_init k idf rk a = Inr b \<longrightarrow>
      3 \<le> a_depth a \<and> depth b = a_depth a - 2 \<and> 1 \<le> depth b)"
proof -
  have 1: "block_init k idf rk a = Inl (ValueError (depth_message k)) \<longleftrightarrow> a_depth a < 3"
    by (cases k) (auto simp: init_defs sum_bind_Inl_iff dest!: normalize_tuple_Inl)
  have 2: "3 \<le> a_depth a \<and> depth b = a_depth a - 2 \<and> 1 \<le> depth b"
    if "block_init k idf rk a = Inr b" for b
    using that by (cases k) (auto simp: init_defs sum_bind_Inr_iff split: if_splits)
  from 1 2 show ?thesis by blast
qed

theorem init_depth_check_witness:
  "(\<exists>b. block_init Resnext channels_last 2 ex_args = Inr b \<and> depth b = 1)
   \<and> block_init Resnext channels_last 2 (ex_args\<lparr>a_depth := 2\<rparr>)
       = Inl (ValueError ''The depth of the ResNeXt block should be >= 3.'')"
proof -
  have r: "block_init Resnext channels_last 2 ex_args =
    Inr \<lparr> rank = 2, depth = 1, ofilters = 8, lgroups = None, lfilters = None,
          kernel_size = [3, 3], strides = [1, 1], output_mshape = None, output_padding = None,
          output_cropping = None, data_format = channels_last, dilation_rate = [1, 1],
          dropout = None, activation = Some ''relu'', high_activation = None \<rparr>"
    by (simp add: ex_args_def Resnext_init_def normalize_tuple_def check_dl_func_def
        normalize_data_format_def init_activation_def numeral_2_eq_2)
  have d: "a_depth (ex_args\<lparr>a_depth := 2\<rparr>) < 3" by simp
  from init_depth_check [of Resnext channels_last 2 ex_args] r
  have "depth \<lparr> rank = 2, depth = 1, ofilters = 8, lgroups = None, lfilters = None,
          kernel_size = [3, 3], strides = [1, 1], output_mshape = None, output_padding = None,
          output_cropping = None, data_format = channels_last, dilation_rate = [1, 1],
          dropout = None, activation = Some ''relu'', high_activation = None \<rparr> = a_depth ex_args - 2" by simp
  moreover from init_depth_check [of Resnext channels_last 2 "ex_args\<lparr>a_depth := 2\<rparr>"] d
  have "block_init Resnext channels_last 2 (ex_args\<lparr>a_depth := 2\<rparr>)
       = Inl (ValueError ''The depth of the ResNeXt block should be >= 3.'')" by simp
  ultimately show ?thesis using r by simp
qed

lemma check_dl_func_iff: "check_dl_func xs \<longleftrightarrow> (\<forall>x\<in>set xs. x = 1)"
  by (simp add: check_dl_func_def list_all_iff)

lemma init_reaches_check:
  assumes st: "normalize_tuple (a_strides a) rk ''strides'' = Inr st"
      and dl: "normalize_tuple (a_dilation_rate a) rk ''dilation_rate'' = Inr dl"
      and ks: "normalize_tuple (a_kernel_size a) rk ''kernel_size'' = Inr ks"
      and d: "3 \<le> a_depth a"
      and cf: "\<not> (is_transposed k \<and> rk = 1 \<and>
                 normalize_data_format idf (a_data_format a) = channels_first)"
  shows "(\<not> check_dl_func dl \<and> \<not> check_dl_func st \<longrightarrow>
           block_init k idf rk a =
             Inl (ValueError ''Does not support dilation_rate when strides > 1.'')) \<and>
         (check_dl_func dl \<or> check_dl_func st \<longrightarrow> (\<exists>b. block_init k idf rk a = Inr b))"
proof (cases k)
  case Residual
  then show ?thesis using d by (auto simp: Residual_init_def st dl ks)
next
  case ResidualTranspose
  then show ?thesis using d cf by (auto simp: ResidualTranspose_init_def st dl ks)
next
  case Resnext
  then show ?thesis using d by (auto simp: Resnext_init_def st dl ks)
next
  case ResnextTranspose
  then show ?thesis using d cf by (auto simp: ResnextTranspose_init_def st dl ks)
qed

lemma init_check_raises:
  assumes st: "normalize_tuple (a_strides a) rk ''strides'' = Inr st"
      and dl: "normalize_tuple (a_dilation_rate a) rk ''dilation_rate'' = Inr dl"
      and n: "\<not> check_dl_func dl" "\<not> check_dl_func st"
  shows "is_ValueError (block_init k idf rk a)"
proof -
  consider (ok) ks where "normalize_tuple (a_kernel_size a) rk ''kernel_size'' = Inr ks"
    | (bad) "normalize_tuple (a_kernel_size a) rk ''kernel_size'' = Inl (ValueError ''kernel_size'')"
    by (cases "normalize_tuple (a_kernel_size a) rk ''kernel_size''")
       (auto dest: normalize_tuple_Inl)
  then show ?thesis
  proof cases
    case ok
    show ?thesis
    proof (cases k)
      case Residual
      then show ?thesis using n by (simp add: Residual_init_def st dl ok)
    next
      case ResidualTranspose
      then show ?thesis using n by (simp add: ResidualTranspose_init_def st dl ok)
    next
      case Resnext
      then show ?thesis using n by (simp add: Resnext_init_def st dl ok)
    next
      case ResnextTranspose
      then show ?thesis using n by (simp add: ResnextTranspose_init_def st dl ok)
    qed
  next
    case bad
    show ?thesis
    proof (cases k)
      case Residual
      then show ?thesis by (simp add: Residual_init_def bad)
    next
      case ResidualTranspose
      then show ?thesis by (simp add: ResidualTranspose_init_def bad)
    next
      case Resnext
      then show ?thesis by (simp add: Resnext_init_def bad)
    next
      case ResnextTranspose
      then show ?thesis by (simp add: ResnextTranspose_init_def bad)
    qed
  qed
qed

lemma init_check_passes:
  assumes st: "normalize_tuple (a_strides a) rk ''strides'' = Inr st"
      and dl: "normalize_tuple (a_dilation_rate a) rk ''dilation_rate'' = Inr dl"
      and n: "check_dl_func dl \<or> check_dl_func st"
  shows "block_init k idf rk a \<noteq>
           Inl (ValueError ''Does not support dilation_rate when strides > 1.'')"
proof -
  consider (ok) ks where "normalize_tuple (a_kernel_size a) rk ''kernel_size'' = Inr ks"
    | (bad) "normalize_tuple (a_kernel_size a) rk ''kernel_size'' = Inl (ValueError ''kernel_size'')"
    by (cases "normalize_tuple (a_kernel_size a) rk ''kernel_size''")
       (auto dest: normalize_tuple_Inl)
  then show ?thesis
  proof cases
    case ok
    show ?thesis
    proof (cases k)
      case Residual
      then show ?thesis using n by (auto simp: Residual_init_def st dl ok)
    next
      case ResidualTranspose
      then show ?thesis using n by (auto simp: ResidualTranspose_init_def st dl ok)
    next
      case Resnext
      then show ?thesis using n by (auto simp: Resnext_init_def st dl ok)
    next
      case ResnextTranspose
      then show ?thesis using n by (auto simp: ResnextTranspose_init_def st dl ok)
    qed
  next
    case bad
    show ?thesis
    proof (cases k)
      case Residual
      then show ?thesis by (simp add: Residual_init_def bad)
    next
      case ResidualTranspose
      then show ?thesis by (simp add: ResidualTranspose_init_def bad)
    next
      case Resnext
      then show ?thesis by (simp add: Resnext_init_def bad)
    next
      case ResnextTranspose
      then show ?thesis by (simp add: ResnextTranspose_init_def bad)
    qed
  qed
qed

text \<open>
  C9: in every block class, once the constructor has normalized \<open>strides\<close> and
  \<open>dilation_rate\<close> to tuples \<open>st\<close> and \<open>dl\<close> of length \<open>rank\<close>: if some entry of \<open>dl\<close> and
  some entry of \<open>st\<close> differ from 1, the constructor raises \<open>ValueError\<close>, and the one it
  raises is \<open>'Does not support dilation_rate when strides > 1.'\<close> whenever the statements
  before the check have not raised already (the depth is at least 3, \<open>kernel_size\<close>
  normalizes, and the block is not a transposed one of rank 1 with \<open>channels_first\<close>);
  if all entries of either tuple are 1 the check passes: that error is not raised, and
  the constructor returns when the earlier statements have not raised.
\<close>

theorem init_dilation_strides_check:
  assumes st: "normalize_tuple (a_strides a) rk ''strides'' = Inr st"
      and dl: "normalize_tuple (a_dilation_rate a) rk ''dilation_rate'' = Inr dl"
  shows "((\<exists>x\<in>set dl. x \<noteq> 1) \<and> (\<exists>y\<in>set st. y \<noteq> 1) \<longrightarrow>
            is_ValueError (block_init k idf rk a) \<and>
            (3 \<le> a_depth a \<and> (\<exists>ks. normalize_tuple (a_kernel_size a) rk ''kernel_size'' = Inr ks) \<and>
             \<not> (is_transposed k \<and> rk = 1 \<and>
                 normalize_data_format idf (a_data_format a) = channels_first)
             \<longrightarrow> block_init k idf rk a =
                   Inl (ValueError ''Does not support dilation_rate when strides > 1.'')))
       \<and> ((\<forall>x\<in>set dl. x = 1) \<or> (\<forall>y\<in>set st. y = 1) \<longrightarrow>
            block_init k idf rk a \<noteq>
              Inl (ValueError ''Does not support dilation_rate when strides > 1.'') \<and>
            (3 \<le> a_depth a \<and> (\<exists>ks. normalize_tuple (a_kernel_size a) rk ''kernel_size'' = Inr ks) \<and>
             \<not> (is_transposed k \<and> rk = 1 \<and>
                 normalize_data_format idf (a_data_format a) = channels_first)
             \<longrightarrow> (\<exists>b. block_init k idf rk a = Inr b)))"
  using init_reaches_check [OF st dl, of _ k idf] init_check_raises [OF st dl, of k idf]
    init_check_passes [OF st dl, of k idf]
  unfolding check_dl_func_iff by blast

theorem init_dilation_strides_check_witness:
  "block_init ResidualTranspose channels_last 2
      (ex_args\<lparr>a_strides := TupleArg [1, 2], a_dilation_rate := TupleArg [3, 1]\<rparr>)
     = Inl (ValueError ''Does not support dilation_rate when strides > 1.'')
   \<and> (\<exists>b. block_init ResidualTranspose channels_last 2
      (ex_args\<lparr>a_strides := TupleArg [1, 1], a_dilation_rate := TupleArg [3, 1]\<rparr>) = Inr b)"
proof -
  let ?a = "ex_args\<lparr>a_strides := TupleArg [1, 2], a_dilation_rate := TupleArg [3, 1]\<rparr>"
  let ?b = "ex_args\<lparr>a_strides := TupleArg [1, 1], a_dilation_rate := TupleArg [3, 1]\<rparr>"
  have 1: "normalize_tuple (a_strides ?a) 2 ''strides'' = Inr [1, 2]"
    and 2: "normalize_tuple (a_dilation_rate ?a) 2 ''dilation_rate'' = Inr [3, 1]"
    and 3: "normalize_tuple (a_strides ?b) 2 ''strides'' = Inr [1, 1]"
    and 4: "normalize_tuple (a_dilation_rate ?b) 2 ''dilation_rate'' = Inr [3, 1]"
    and 5: "normalize_tuple (a_kernel_size ?a) 2 ''kernel_size'' = Inr [3, 3]"
    and 6: "normalize_tuple (a_kernel_size ?b) 2 ''kernel_size'' = Inr [3, 3]"
    by (simp_all add: normalize_tuple_def ex_args_def numeral_2_eq_2)
  have 7: "a_depth ?a = 3" "a_depth ?b = 3" by (simp_all add: ex_args_def)
  from init_dilation_strides_check [OF 1 2, of ResidualTranspose channels_last] 5 7
  have "block_init ResidualTranspose channels_last 2 ?a
     = Inl (ValueError ''Does not support dilation_rate when strides > 1.'')" by simp
  moreover from init_dilation_strides_check [OF 3 4, of ResidualTranspose channels_last] 6 7
  have "\<exists>b. block_init ResidualTranspose channels_last 2 ?b = Inr b" by simp
  ultimately show ?thesis by simp
qed

subsection \<open>Serialization\<close>

lemma init_activation_idem:
  assumes "init_activation a = (Some act, h)"
  shows "init_activation (c\<lparr>a_activation := Some act, a_high_activation := h\<rparr>) = (Some act, h)"
  using assms
  by (auto simp: init_activation_def Let_def split: option.splits if_splits)

lemma block_init_activation:
  assumes "block_init k idf rk a = Inr b"
  shows "(activation b, high_activation b) = init_activation a"
proof (cases k)
  case Residual
  with assms show ?thesis
    by (auto simp: Residual_init_def sum_bind_Inr_iff split: if_splits)
next
  case ResidualTranspose
  with assms show ?thesis
    by (auto simp: ResidualTranspose_init_def sum_bind_Inr_iff split: if_splits)
next
  case Resnext
  with assms show ?thesis
    by (auto simp: Resnext_init_def sum_bind_Inr_iff split: if_splits)
next
  case ResnextTranspose
  with assms show ?thesis
    by (auto simp: ResnextTranspose_init_def sum_bind_Inr_iff split: if_splits)
qed

text \<open>
  A block constructed without an activation (the default) has no attribute
  \<open>self.activation\<close>, and its \<open>get_config\<close> raises.
\<close>

lemma get_config_no_activation:
  assumes "block_init k idf rk a = Inr b"
      and "a_activation a = None" and "a_high_activation a = None"
  shows "get_config b = Inl (AttributeError ''object has no attribute 'activation' '')"
proof -
  from assms(2,3) have "init_activation a = (None, None)"
    by (simp add: init_activation_def)
  with block_init_activation [OF assms(1)] have "activation b = None" by simp
  then show ?thesis by (simp add: get_config_def)
qed

text \<open>
  On a block constructed with an activation, \<open>get_config\<close> returns a dictionary with the
  depth argument, and the constructor rebuilds the block from it.
\<close>

lemma init_roundtrip_gen:
  assumes "block_init k idf rk a = Inr b"
      and "init_activation c = init_activation a"
      and "a_depth c = depth b + 2" and "a_ofilters c = ofilters b"
      and "a_kernel_size c = TupleArg (kernel_size b)"
      and "a_lgroups c = lgroups b" and "a_lfilters c = lfilters b"
      and "a_strides c = TupleArg (strides b)"
      and "a_output_mshape c = output_mshape b"
      and "a_output_padding c = output_padding b"
      and "a_output_cropping c = output_cropping b"
      and "a_data_format c = Some (data_format b)"
      and "a_dilation_rate c = TupleArg (dilation_rate b)"
      and "a_dropout c = dropout b"
  shows "block_init k idf rk c = Inr b"
proof (cases k)
  case Residual
  with assms(1) show ?thesis
    by (auto simp: Residual_init_def sum_bind_Inr_iff normalize_tuple_idem
             normalize_data_format_def assms(2-)
             dest!: normalize_tuple_length split: if_splits)
next
  case ResidualTranspose
  with assms(1) show ?thesis
    by (auto simp: ResidualTranspose_init_def sum_bind_Inr_iff normalize_tuple_idem
             normalize_data_format_def assms(2-)
             dest!: normalize_tuple_length split: if_splits)
next
  case Resnext
  with assms(1) show ?thesis
    by (auto simp: Resnext_init_def sum_bind_Inr_iff normalize_tuple_idem
             normalize_data_format_def assms(2-)
             dest!: normalize_tuple_length split: if_splits)
next
  case ResnextTranspose
  with assms(1) show ?thesis
    by (auto simp: ResnextTranspose_init_def sum_bind_Inr_iff normalize_tuple_idem
             normalize_data_format_def assms(2-)
             dest!: normalize_tuple_length split: if_splits)
qed

lemma get_config_roundtrip_with_activation:
  assumes init: "block_init k idf rk a = Inr b" and cfg: "get_config b = Inr c"
  shows "a_depth c = a_depth a \<and> from_config k idf rk c = Inr b"
proof -
  from cfg obtain act where act: "activation b = Some act"
    by (auto simp: get_config_def split: option.splits)
  with block_init_activation [OF init]
  have ia: "init_activation a = (Some act, high_activation b)" by simp
  have c: "c = \<lparr> a_depth = depth b + 2, a_ofilters = ofilters b,
              a_kernel_size = TupleArg (kernel_size b), a_lgroups = lgroups b,
              a_lfilters = lfilters b, a_strides = TupleArg (strides b),
              a_output_mshape = output_mshape b, a_output_padding = output_padding b,
              a_output_cropping = output_cropping b, a_data_format = Some (data_format b),
              a_dilation_rate = TupleArg (dilation_rate b), a_dropout = dropout b,
              a_activation = Some act, a_high_activation = high_activation b \<rparr>"
    using cfg act by (simp add: get_config_def)
  have "init_activation c = (Some act, high_activation b)"
    using init_activation_idem [OF ia, of c] by (simp add: c)
  with ia have ic: "init_activation c = init_activation a" by simp
  have d: "depth b = a_depth a - 2"
    using init by (cases k) (auto simp: init_defs sum_bind_Inr_iff split: if_splits)
  have "block_init k idf rk c = Inr b"
    by (rule init_roundtrip_gen [OF init ic]) (simp_all add: c)
  with d show ?thesis by (simp add: from_config_def c)
qed

text \<open>
  C10 says that \<open>get_config\<close> of every block constructed with a depth \<open>d \<ge> 3\<close> reports
  \<open>'depth'\<close> equal to \<open>d\<close>.  The code at \<open>Residual2D(ofilters=8, kernel_size=3, depth=3)\<close>,
  a block with the default \<open>activation=None\<close>, and likewise at the same arguments of the
  three other classes: the constructor returns, and \<open>get_config\<close> raises \<open>AttributeError\<close>
  instead of returning a dictionary.
\<close>

theorem get_config_default_activation_raises:
  "(\<exists>b. block_init Residual channels_last 2 (ex_args\<lparr>a_activation := None\<rparr>) = Inr b \<and>
        get_config b = Inl (AttributeError ''object has no attribute 'activation' '')) \<and>
   (\<exists>b. block_init ResidualTranspose channels_last 2 (ex_args\<lparr>a_activation := None\<rparr>) = Inr b \<and>
        get_config b = Inl (AttributeError ''object has no attribute 'activation' '')) \<and>
   (\<exists>b. block_init Resnext channels_last 2 (ex_args\<lparr>a_activation := None\<rparr>) = Inr b \<and>
        get_config b = Inl (AttributeError ''object has no attribute 'activation' '')) \<and>
   (\<exists>b. block_init ResnextTranspose channels_last 2 (ex_args\<lparr>a_activation := None\<rparr>) = Inr b \<and>
        get_config b = Inl (AttributeError ''object has no attribute 'activation' ''))"
  by (simp add: ex_args_def init_defs normalize_tuple_def check_dl_func_def
      normalize_data_format_def init_activation_def get_config_def numeral_2_eq_2)

subsection \<open>Shapes of the sub-layers\<close>

lemma channel_axis_dim_eq: "channel_axis_dim df s = channel_of df s"
  by (cases df) (simp_all add: channel_axis_dim_def channel_of_def)

lemma opt_dropout_shape: "opt_layer_shape (return_dropout d) s = Inr s"
  by (simp add: opt_layer_shape_def return_dropout_def split: option.splits)

lemma batch_of_join [simp]: "batch_of (join_shape df b sp c) = b"
  by (cases df) (simp_all add: batch_of_def join_shape_def)

lemma spatial_of_join [simp]: "spatial_of df (join_shape df b sp c) = sp"
  by (cases df) (simp_all add: spatial_of_def join_shape_def butlast_append)

lemma channel_of_join [simp]: "channel_of df (join_shape df b sp c) = c"
  by (cases df) (simp_all add: channel_of_def join_shape_def)

lemma length_join [simp]: "length (join_shape df b sp c) = length sp + 2"
  by (cases df) (simp_all add: join_shape_def)

lemma join_parts: "2 \<le> length s \<Longrightarrow>
    join_shape df (batch_of s) (spatial_of df s) (channel_of df s) = s"
proof (cases s)
  case Nil
  then show "2 \<le> length s \<Longrightarrow> ?thesis" by simp
next
  case (Cons x t)
  assume "2 \<le> length s"
  with Cons obtain y r where t: "t = y # r" by (cases t) auto
  show ?thesis
  proof (cases df)
    case channels_last
    have "butlast t @ [last t] = t" using t by (simp del: butlast.simps last.simps)
    then show ?thesis using Cons t channels_last
      by (simp add: join_shape_def batch_of_def spatial_of_def channel_of_def
          del: butlast.simps last.simps) (simp)
  next
    case channels_first
    then show ?thesis using Cons t
      by (simp add: join_shape_def batch_of_def spatial_of_def channel_of_def)
  qed
qed

lemma length_spatial_of: "length s = n + 2 \<Longrightarrow> length (spatial_of df s) = n"
  by (cases df) (simp_all add: spatial_of_def)

lemma conv_output_length_one: "conv_output_length n 1 = Inr n"
  by (simp add: conv_output_length_def split: option.splits)

lemma conv_output_lengths_ones:
  "\<forall>s\<in>set ss. s = 1 \<Longrightarrow> conv_output_lengths ns ss = Inr ms \<Longrightarrow> ms = ns"
proof (induction ns ss arbitrary: ms rule: conv_output_lengths.induct)
  case (1 ss)
  then show ?case by simp
next
  case (2 n ns)
  then show ?case by simp
next
  case (3 n ns s ss)
  then show ?case
    by (auto simp: sum_bind_Inr_iff conv_output_length_one)
qed

lemma conv_output_shape_Inr:
  assumes "conv_output_shape cfg s = Inr t"
  shows "\<exists>st sp. normalize_tuple (c_strides cfg) (c_rank cfg) ''strides'' = Inr st \<and>
     conv_output_lengths (spatial_of (c_data_format cfg) s) st = Inr sp \<and>
     t = join_shape (c_data_format cfg) (batch_of s) sp (Some (c_filters cfg)) \<and>
     length s = c_rank cfg + 2"
  using assms unfolding conv_output_shape_def
  by (auto simp: sum_bind_Inr_iff split: if_splits)

lemma conv_stride1:
  assumes "c_strides cfg = IntArg 1" and "conv_output_shape cfg s = Inr t"
  shows "t = join_shape (c_data_format cfg) (batch_of s) (spatial_of (c_data_format cfg) s)
               (Some (c_filters cfg))"
proof -
  from conv_output_shape_Inr [OF assms(2)] obtain st sp where
    st: "normalize_tuple (c_strides cfg) (c_rank cfg) ''strides'' = Inr st" and
    sp: "conv_output_lengths (spatial_of (c_data_format cfg) s) st = Inr sp" and
    t: "t = join_shape (c_data_format cfg) (batch_of s) sp (Some (c_filters cfg))"
    by blast
  from st assms(1) have "\<forall>x\<in>set st. x = 1" by (auto simp: normalize_tuple_def)
  from conv_output_lengths_ones [OF this sp] t show ?thesis by simp
qed

lemma build_middle_shape:
  assumes mk: "\<And>i. \<exists>cfg. mk i = NACUnit cfg \<and> c_strides cfg = IntArg 1 \<and> c_data_format cfg = df"
      and "build_middle mk is s = Inr (ms, s')"
  shows "batch_of s' = batch_of s \<and> spatial_of df s' = spatial_of df s"
  using assms(2)
proof (induction "is" arbitrary: s ms)
  case Nil
  then show ?case by simp
next
  case (Cons i "is")
  from mk [of i] obtain cfg where c: "mk i = NACUnit cfg" "c_strides cfg = IntArg 1"
    "c_data_format cfg = df" by blast
  from Cons.prems obtain s1 ms1 where
    s1: "conv_output_shape cfg s = Inr s1" and
    r: "build_middle mk is s1 = Inr (ms1, s')"
    by (auto simp: sum_bind_Inr_iff c(1))
  from conv_stride1 [OF c(2) s1] c(3)
  have "batch_of s1 = batch_of s \<and> spatial_of df s1 = spatial_of df s" by simp
  with Cons.IH [OF r] show ?case by simp
qed

lemma branches_equal:
  assumes L: "opt_layer_shape (if ident then None else Some (AConv cL)) s = Inr l"
      and R1: "layer_shape (NACUnit c1) s = Inr r1"
      and M: "build_middle mk is r1 = Inr (ms, r2)"
      and RN: "layer_shape (NACUnit cN) r2 = Inr r"
      and df: "c_data_format cL = df" "c_data_format c1 = df" "c_data_format cN = df"
      and same: "c_rank cL = c_rank c1" "c_strides cL = c_strides c1"
      and filters: "c_filters cL = n" "c_filters cN = n"
      and sN: "c_strides cN = IntArg 1"
      and mk: "\<And>i. \<exists>cfg. mk i = NACUnit cfg \<and> c_strides cfg = IntArg 1 \<and> c_data_format cfg = df"
      and ident: "ident \<Longrightarrow> channel_of df s = Some n \<and>
                   (\<forall>st. normalize_tuple (c_strides c1) (c_rank c1) ''strides'' = Inr st
                      \<longrightarrow> (\<forall>x\<in>set st. x = 1))"
  shows "l = r \<and> channel_of df r = Some n"
proof -
  from R1 have R1': "conv_output_shape c1 s = Inr r1" by simp
  from conv_output_shape_Inr [OF R1'] df obtain st sp where
    st: "normalize_tuple (c_strides c1) (c_rank c1) ''strides'' = Inr st" and
    sp: "conv_output_lengths (spatial_of df s) st = Inr sp" and
    r1: "r1 = join_shape df (batch_of s) sp (Some (c_filters c1))" and
    len: "length s = c_rank c1 + 2"
    by auto
  from build_middle_shape [OF mk M] r1
  have r2: "batch_of r2 = batch_of s" "spatial_of df r2 = sp" by simp_all
  from RN have "conv_output_shape cN r2 = Inr r" by simp
  from conv_stride1 [OF sN this] df r2 filters
  have r: "r = join_shape df (batch_of s) sp (Some n)" by simp
  have "l = r"
  proof (cases ident)
    case True
    with L have l: "l = s" by (simp add: opt_layer_shape_def)
    from ident [OF True] st have ch: "channel_of df s = Some n" and ones: "\<forall>x\<in>set st. x = 1"
      by blast+
    from conv_output_lengths_ones [OF ones sp] have "sp = spatial_of df s" .
    with r ch have "r = join_shape df (batch_of s) (spatial_of df s) (channel_of df s)" by simp
    also have "\<dots> = s" by (rule join_parts) (simp add: len)
    finally show ?thesis using l by simp
  next
    case False
    with L have "conv_output_shape cL s = Inr l" by (simp add: opt_layer_shape_def)
    from conv_output_shape_Inr [OF this] obtain st' sp' where
      "normalize_tuple (c_strides cL) (c_rank cL) ''strides'' = Inr st'"
      "conv_output_lengths (spatial_of (c_data_format cL) s) st' = Inr sp'"
      "l = join_shape (c_data_format cL) (batch_of s) sp' (Some (c_filters cL))"
      by blast
    with st sp same df filters show ?thesis by (simp add: r)
  qed
  then show ?thesis by (simp add: r)
qed

subsection \<open>What build creates\<close>

lemma build_middle_Inr: "build_middle mk is s = Inr (ls, s') \<Longrightarrow> ls = map mk is"
proof (induction "is" arbitrary: s ls)
  case Nil
  then show ?case by simp
next
  case (Cons i "is")
  then show ?case by (auto simp: sum_bind_Inr_iff)
qed

lemma build_branches_Inr:
  assumes "build_branches self cin up pad ident st ff mk s = Inr (b, m)"
  shows "blk b = self \<and> channelIn b = cin \<and> layer_uppool b = up \<and> layer_padding b = pad \<and>
     layer_cropping b = None \<and>
     layer_branch_left b =
       (if ident then None
        else Some (AConv \<lparr> c_rank = rank self, c_filters = ofilters self, c_lgroups = None,
                            c_kernel_size = IntArg 1, c_strides = st,
                            c_data_format = data_format self, c_dilation_rate = IntArg 1,
                            c_use_bias = None \<rparr>)) \<and>
     layer_dropout b = return_dropout (dropout self) \<and>
     layer_first b = NACUnit \<lparr> c_rank = rank self, c_filters = ff, c_lgroups = None,
                              c_kernel_size = IntArg 1, c_strides = st,
                              c_data_format = data_format self, c_dilation_rate = IntArg 1,
                              c_use_bias = None \<rparr> \<and>
     layer_middle b = map mk [0..<nat (depth self)] \<and>
     layer_last b = NACUnit \<lparr> c_rank = rank self, c_filters = ofilters self, c_lgroups = None,
                              c_kernel_size = IntArg 1, c_strides = IntArg 1,
                              c_data_format = data_format self, c_dilation_rate = IntArg 1,
                              c_use_bias = Some ident \<rparr> \<and>
     layer_merge b = Add"
  using assms unfolding build_branches_def Let_def
  by (auto simp: sum_bind_Inr_iff split: prod.splits dest: build_middle_Inr)

lemma build_branches_shapes:
  assumes "build_branches self cin up pad ident st ff mk s = Inr (b, m)"
  shows "\<exists>l r1 r2 r. merge_shapes b = (l, r) \<and>
     opt_layer_shape (layer_branch_left b) s = Inr l \<and>
     layer_shape (layer_first b) s = Inr r1 \<and>
     build_middle mk [0..<nat (depth self)] r1 = Inr (layer_middle b, r2) \<and>
     layer_shape (layer_last b) r2 = Inr r \<and>
     add_output_shape l r = Inr m"
  using assms unfolding build_branches_def Let_def
  by (auto simp: sum_bind_Inr_iff opt_dropout_shape split: prod.splits)

lemma Residual_build_Inr:
  assumes "Residual_build self shp = Inr b"
  shows "\<exists>cin lf m. channel_axis_dim (data_format self) shp = Some cin \<and>
     lf = (case lfilters self of None \<Rightarrow> max 1 (cin div 2) | Some l \<Rightarrow> l) \<and>
     build_branches (self\<lparr>lfilters := Some lf\<rparr>) cin None None
        (check_dl_func (strides self) \<and> ofilters self = cin)
        (TupleArg (strides self)) lf (Residual_middle self lf) shp = Inr (b, m)"
  using assms unfolding Residual_build_def Let_def
  by (auto simp: sum_bind_Inr_iff split: if_splits option.splits)

lemma Resnext_build_Inr:
  assumes "Resnext_build f self shp = Inr b"
  shows "\<exists>cin g lf m. channel_axis_dim (data_format self) shp = Some cin \<and>
     infer_latent f self cin = Inr (g, lf) \<and>
     build_branches (self\<lparr>lgroups := Some g, lfilters := Some lf\<rparr>) cin None None
        (check_dl_func (strides self) \<and> ofilters self = cin)
        (TupleArg (strides self)) (g * lf) (Resnext_middle self g (g * lf)) shp = Inr (b, m)"
  using assms unfolding Resnext_build_def Let_def
  by (auto simp: sum_bind_Inr_iff split: if_splits option.splits)

lemma ResidualTranspose_build_Inr:
  assumes "ResidualTranspose_build idf self shp = Inr b"
  shows "\<exists>cin lf opad ocrop up pad next b0 m crop.
     channel_axis_dim (data_format self) shp = Some cin \<and>
     lf = (case lfilters self of None \<Rightarrow> max 1 (cin div 2) | Some l \<Rightarrow> l) \<and>
     (case output_mshape self of
        None \<Rightarrow> Inr (output_padding self, output_cropping self)
      | Some m \<Rightarrow> infer_padding_cropping self shp m) = Inr (opad, ocrop) \<and>
     build_uppool_padding self opad shp = Inr (up, pad, next) \<and>
     build_branches
        (self\<lparr>lfilters := Some lf, output_padding := opad, output_cropping := ocrop\<rparr>)
        cin (Some up) pad (ofilters self = cin) (IntArg 1) lf
        (Residual_middle self lf) next = Inr (b0, m) \<and>
     build_cropping idf self ocrop m = Inr crop \<and>
     b = b0\<lparr>layer_cropping := crop\<rparr>"
  using assms unfolding ResidualTranspose_build_def Let_def
  by (auto simp: sum_bind_Inr_iff split: if_splits option.splits)

lemma ResnextTranspose_build_Inr:
  assumes "ResnextTranspose_build idf f self shp = Inr b"
  shows "\<exists>cin g lf opad ocrop up pad next b0 m crop.
     channel_axis_dim (data_format self) shp = Some cin \<and>
     infer_latent f self cin = Inr (g, lf) \<and>
     (case output_mshape self of
        None \<Rightarrow> Inr (output_padding self, output_cropping self)
      | Some m \<Rightarrow> infer_padding_cropping self shp m) = Inr (opad, ocrop) \<and>
     build_uppool_padding self opad shp = Inr (up, pad, next) \<and>
     build_branches
        (self\<lparr>lgroups := Some g, lfilters := Some lf, output_padding := opad,
              output_cropping := ocrop\<rparr>)
        cin (Some up) pad (ofilters self = cin) (IntArg 1) (g * lf)
        (Resnext_middle self g (g * lf)) next = Inr (b0, m) \<and>
     build_cropping idf self ocrop m = Inr crop \<and>
     b = b0\<lparr>layer_cropping := crop\<rparr>"
  using assms unfolding ResnextTranspose_build_def Let_def
  by (auto simp: sum_bind_Inr_iff split: if_splits option.splits)

subsection \<open>Evaluation on the concrete block\<close>

lemmas shape_defs = channel_axis_dim_def opt_layer_shape_def conv_output_shape_def
  normalize_tuple_def spatial_of_def batch_of_def channel_of_def join_shape_def
  conv_output_length_def return_dropout_def read_activation_def

lemma ex_block_init: "Residual_init channels_last 2 ex_args = Inr ex_block"
  by (simp add: ex_args_def ex_block_def Residual_init_def normalize_tuple_def check_dl_func_def
        normalize_data_format_def init_activation_def numeral_2_eq_2)

lemma ex_block_build: "\<exists>b. Residual_build ex_block ex_shape = Inr b"
  by (simp add: Residual_build_def build_branches_def ex_block_def ex_shape_def shape_defs
      Residual_middle_def check_dl_func_def Let_def numeral_2_eq_2)

subsection \<open>The two branches have the same shape\<close>

lemma build_branches_equal:
  assumes bb: "build_branches self cin up pad ident st ff mk s = Inr (b, m)"
      and mk: "\<And>i. \<exists>cfg. mk i = NACUnit cfg \<and> c_strides cfg = IntArg 1 \<and>
                 c_data_format cfg = data_format self"
      and ident: "ident \<Longrightarrow> channel_of (data_format self) s = Some (ofilters self) \<and>
                 (\<forall>x. normalize_tuple st (rank self) ''strides'' = Inr x \<longrightarrow> (\<forall>y\<in>set x. y = 1))"
  shows "fst (merge_shapes b) = snd (merge_shapes b) \<and>
         channel_of (data_format self) (snd (merge_shapes b)) = Some (ofilters self)"
proof -
  from build_branches_shapes [OF bb] obtain l r1 r2 r where
    ms: "merge_shapes b = (l, r)" and
    L: "opt_layer_shape (layer_branch_left b) s = Inr l" and
    R1: "layer_shape (layer_first b) s = Inr r1" and
    M: "build_middle mk [0..<nat (depth self)] r1 = Inr (layer_middle b, r2)" and
    RN: "layer_shape (layer_last b) r2 = Inr r"
    by blast
  note f = build_branches_Inr [OF bb]
  have "l = r \<and> channel_of (data_format self) r = Some (ofilters self)"
  proof (rule branches_equal [where ident = ident and mk = mk])
    show "opt_layer_shape
       (if ident then None
        else Some (AConv \<lparr> c_rank = rank self, c_filters = ofilters self, c_lgroups = None,
                            c_kernel_size = IntArg 1, c_strides = st,
                            c_data_format = data_format self, c_dilation_rate = IntArg 1,
                            c_use_bias = None \<rparr>)) s = Inr l"
      using L f by simp
    show "layer_shape (NACUnit \<lparr> c_rank = rank self, c_filters = ff, c_lgroups = None,
                              c_kernel_size = IntArg 1, c_strides = st,
                              c_data_format = data_format self, c_dilation_rate = IntArg 1,
                              c_use_bias = None \<rparr>) s = Inr r1"
      using R1 f by simp
    show "build_middle mk [0..<nat (depth self)] r1 = Inr (layer_middle b, r2)" by (rule M)
    show "layer_shape (NACUnit \<lparr> c_rank = rank self, c_filters = ofilters self, c_lgroups = None,
                              c_kernel_size = IntArg 1, c_strides = IntArg 1,
                              c_data_format = data_format self, c_dilation_rate = IntArg 1,
                              c_use_bias = Some ident \<rparr>) r2 = Inr r"
      using RN f by simp
    show "\<And>i. \<exists>cfg. mk i = NACUnit cfg \<and> c_strides cfg = IntArg 1 \<and>
                 c_data_format cfg = data_format self" by (rule mk)
    show "ident \<Longrightarrow> channel_of (data_format self) s = Some (ofilters self) \<and>
        (\<forall>sta. normalize_tuple (c_strides \<lparr> c_rank = rank self, c_filters = ff, c_lgroups = None,
                              c_kernel_size = IntArg 1, c_strides = st,
                              c_data_format = data_format self, c_dilation_rate = IntArg 1,
                              c_use_bias = None \<rparr>)
               (c_rank \<lparr> c_rank = rank self, c_filters = ff, c_lgroups = None,
                              c_kernel_size = IntArg 1, c_strides = st,
                              c_data_format = data_format self, c_dilation_rate = IntArg 1,
                              c_use_bias = None \<rparr>) ''strides'' = Inr sta \<longrightarrow> (\<forall>x\<in>set sta. x = 1))"
      using ident by simp
  qed simp_all
  with ms show ?thesis by simp
qed

lemma Residual_middle_unit:
  "\<exists>cfg. Residual_middle self lf i = NACUnit cfg \<and> c_strides cfg = IntArg 1 \<and>
         c_data_format cfg = data_format self"
  by (simp add: Residual_middle_def)

lemma Resnext_middle_unit:
  "\<exists>cfg. Resnext_middle self g w i = NACUnit cfg \<and> c_strides cfg = IntArg 1 \<and>
         c_data_format cfg = data_format self"
  by (simp add: Resnext_middle_def)

lemma uppool_padding_channel:
  assumes "build_uppool_padding self opad shp = Inr (up, pad, next)"
      and "rank self = 1 \<longrightarrow> data_format self = channels_last"
  shows "channel_of (data_format self) next = channel_of (data_format self) shp"
  using assms unfolding build_uppool_padding_def Let_def
  by (auto simp: sum_bind_Inr_iff split: if_splits option.splits)

lemma transposed_init_format:
  assumes "is_transposed k" and "block_init k idf rk a = Inr self"
  shows "rank self = 1 \<longrightarrow> data_format self = channels_last"
proof -
  have "rank self = 1 \<longrightarrow> data_format self \<noteq> channels_first"
    using assms
    by (cases k)
       (auto simp: ResidualTranspose_init_def ResnextTranspose_init_def sum_bind_Inr_iff
             split: if_splits)
  then show ?thesis by (cases "data_format self") auto
qed

lemma ones_normalize:
  "\<forall>x. normalize_tuple (IntArg 1) n ''strides'' = Inr x \<longrightarrow> (\<forall>y\<in>set x. y = 1)"
  by (auto simp: normalize_tuple_def)

lemma tuple_normalize:
  "check_dl_func st \<Longrightarrow>
   \<forall>x. normalize_tuple (TupleArg st) n ''strides'' = Inr x \<longrightarrow> (\<forall>y\<in>set x. y = 1)"
  by (auto simp: normalize_tuple_def check_dl_func_iff split: if_splits)

text \<open>
  C7: for every residual or ResNeXt block, plain or transposed, that a constructor has
  returned and whose \<open>build\<close> succeeds, the two shapes handed to the \<open>Add\<close> merge are equal:
  the left branch (projection or identity) and the right branch (the units) both have
  exactly \<open>ofilters\<close> channels and the same spatial dimensions.
\<close>

theorem merge_shapes_equal:
  assumes init: "block_init k idf rk a = Inr self"
      and build: "block_build k idf f self shp = Inr b"
  shows "fst (merge_shapes b) = snd (merge_shapes b) \<and>
         channel_of (data_format self) (fst (merge_shapes b)) = Some (ofilters self) \<and>
         channel_of (data_format self) (snd (merge_shapes b)) = Some (ofilters self) \<and>
         spatial_of (data_format self) (fst (merge_shapes b)) =
           spatial_of (data_format self) (snd (merge_shapes b))"
proof -
  have "fst (merge_shapes b) = snd (merge_shapes b) \<and>
         channel_of (data_format self) (snd (merge_shapes b)) = Some (ofilters self)"
  proof (cases k)
    case Residual
    with build have "Residual_build self shp = Inr b" by simp
    from Residual_build_Inr [OF this] obtain cin lf m where
      cin: "channel_axis_dim (data_format self) shp = Some cin" and
      bb: "build_branches (self\<lparr>lfilters := Some lf\<rparr>) cin None None
        (check_dl_func (strides self) \<and> ofilters self = cin)
        (TupleArg (strides self)) lf (Residual_middle self lf) shp = Inr (b, m)"
      by blast
    from build_branches_equal [OF bb] cin tuple_normalize [of "strides self" "rank self"]
    show ?thesis
      by (auto simp: Residual_middle_unit channel_axis_dim_eq)
  next
    case Resnext
    with build have "Resnext_build f self shp = Inr b" by simp
    from Resnext_build_Inr [OF this] obtain cin g lf m where
      cin: "channel_axis_dim (data_format self) shp = Some cin" and
      bb: "build_branches (self\<lparr>lgroups := Some g, lfilters := Some lf\<rparr>) cin None None
        (check_dl_func (strides self) \<and> ofilters self = cin)
        (TupleArg (strides self)) (g * lf) (Resnext_middle self g (g * lf)) shp = Inr (b, m)"
      by blast
    from build_branches_equal [OF bb] cin tuple_normalize [of "strides self" "rank self"]
    show ?thesis
      by (auto simp: Resnext_middle_unit channel_axis_dim_eq)
  next
    case ResidualTranspose
    with build have "ResidualTranspose_build idf self shp = Inr b" by simp
    from ResidualTranspose_build_Inr [OF this] obtain cin lf opad ocrop up pad "next" b0 m crop
      where cin: "channel_axis_dim (data_format self) shp = Some cin" and
      up: "build_uppool_padding self opad shp = Inr (up, pad, next)" and
      bb: "build_branches
        (self\<lparr>lfilters := Some lf, output_padding := opad, output_cropping := ocrop\<rparr>)
        cin (Some up) pad (ofilters self = cin) (IntArg 1) lf
        (Residual_middle self lf) next = Inr (b0, m)" and
      b: "b = b0\<lparr>layer_cropping := crop\<rparr>"
      by blast
    from transposed_init_format [OF _ init] ResidualTranspose
    have "rank self = 1 \<longrightarrow> data_format self = channels_last" by simp
    from uppool_padding_channel [OF up this] cin
    have ch: "channel_of (data_format self) next = Some cin" by (simp add: channel_axis_dim_eq)
    from build_branches_equal [OF bb] ch show ?thesis
      by (simp add: Residual_middle_unit ones_normalize b)
  next
    case ResnextTranspose
    with build have "ResnextTranspose_build idf f self shp = Inr b" by simp
    from ResnextTranspose_build_Inr [OF this] obtain cin g lf opad ocrop up pad "next" b0 m crop
      where cin: "channel_axis_dim (data_format self) shp = Some cin" and
      up: "build_uppool_padding self opad shp = Inr (up, pad, next)" and
      bb: "build_branches
        (self\<lparr>lgroups := Some g, lfilters := Some lf, output_padding := opad,
              output_cropping := ocrop\<rparr>)
        cin (Some up) pad (ofilters self = cin) (IntArg 1) (g * lf)
        (Resnext_middle self g (g * lf)) next = Inr (b0, m)" and
      b: "b = b0\<lparr>layer_cropping := crop\<rparr>"
      by blast
    from transposed_init_format [OF _ init] ResnextTranspose
    have "rank self = 1 \<longrightarrow> data_format self = channels_last" by simp
    from uppool_padding_channel [OF up this] cin
    have ch: "channel_of (data_format self) next = Some cin" by (simp add: channel_axis_dim_eq)
    from build_branches_equal [OF bb] ch show ?thesis
      by (simp add: Resnext_middle_unit ones_normalize b)
  qed
  then show ?thesis by simp
qed

theorem merge_shapes_equal_witness:
  "\<exists>b. block_init Residual channels_last 2 ex_args = Inr ex_block \<and>
       block_build Residual channels_last ex_est ex_block ex_shape = Inr b \<and>
       fst (merge_shapes b) = snd (merge_shapes b) \<and>
       channel_of channels_last (fst (merge_shapes b)) = Some 8"
proof -
  from ex_block_build obtain b where "Residual_build ex_block ex_shape = Inr b" ..
  then have build: "block_build Residual channels_last ex_est ex_block ex_shape = Inr b"
    by simp
  have init: "block_init Residual channels_last 2 ex_args = Inr ex_block"
    by (simp add: ex_block_init)
  from merge_shapes_equal [OF init build] init build show ?thesis
    by (auto simp: ex_block_def)
qed


subsection \<open>The sub-layers of a built residual block and their order\<close>

lemma upt_nat_1: "[0..<nat 1] = [0]"
  by simp

lemma call_middle_all:
  "\<forall>i\<in>set is. i < length ls \<Longrightarrow>
     call_middle app ls is x = Inr (foldl (\<lambda>y i. app (ls ! i) y) x is)"
  by (induction "is" arbitrary: x) auto

lemma call_middle_map:
  "call_middle app (map mk [0..<n]) [0..<n] x = Inr (foldl (\<lambda>y l. app l y) x (map mk [0..<n]))"
proof -
  have "call_middle app (map mk [0..<n]) [0..<n] x
      = Inr (foldl (\<lambda>y i. app (map mk [0..<n] ! i) y) x [0..<n])"
    by (rule call_middle_all) simp
  also have "foldl (\<lambda>y i. app (map mk [0..<n] ! i) y) x [0..<n]
      = foldl (\<lambda>y i. app (mk i) y) x [0..<n]"
    by (rule foldl_cong) auto
  also have "\<dots> = foldl (\<lambda>y l. app l y) x (map mk [0..<n])"
    by (simp add: foldl_map)
  finally show ?thesis .
qed

text \<open>The value of \<open>call\<close> of a plain block whose middle units are those \<open>build\<close> made.\<close>

lemma plain_call_built:
  assumes "layer_middle b = map mk [0..<nat (depth (blk b))]"
  shows "Residual_call app mrg b x =
      Inr (mrg (layer_merge b) [app_opt app (layer_branch_left b) x,
         app (layer_last b) (foldl (\<lambda>y l. app l y)
            (app (layer_first b) (app_opt app (layer_dropout b) x)) (layer_middle b))])"
    and "Resnext_call app mrg b x =
      Inr (mrg (layer_merge b) [app_opt app (layer_branch_left b) x,
         app (layer_last b) (foldl (\<lambda>y l. app l y)
            (app (layer_first b) (app_opt app (layer_dropout b) x)) (layer_middle b))])"
  unfolding Residual_call_def Resnext_call_def Let_def
  by (simp_all add: assms call_middle_map app_opt_def)

lemma Residual_init_fields:
  "Residual_init idf rk a = Inr self \<Longrightarrow> rank self = rk \<and> depth self = a_depth a - 2"
  by (auto simp: Residual_init_def sum_bind_Inr_iff split: if_splits)

text \<open>
  C4: for every built plain residual block, \<open>call\<close> returns the \<open>Add\<close> merge of two terms
  and applies nothing else.  The left term is the \<open>_AConv\<close> projection of the input (1x1,
  \<open>ofilters\<close> filters, the block's strides) when some stride is not 1 or \<open>ofilters\<close>
  differs from the input channel count \<open>cin\<close>, and the input itself otherwise.  The right
  term applies, in order, the optional dropout layer, a 1x1 \<open>NACUnit\<close> with \<open>lfilters\<close>
  filters and the block's strides, exactly \<open>depth - 2\<close> middle \<open>NACUnit\<close>s with the
  block's kernel size and \<open>lfilters\<close> filters at stride 1, of which only the first carries
  the \<open>dilation_rate\<close>, and a final 1x1 \<open>NACUnit\<close> with \<open>ofilters\<close> filters.
\<close>

theorem Residual_call_structure:
  assumes init: "Residual_init idf rk a = Inr self"
      and build: "Residual_build self shp = Inr b"
  shows "\<exists>cin lf. channel_axis_dim (data_format self) shp = Some cin \<and>
     lfilters (blk b) = Some lf \<and>
     lf = (case lfilters self of None \<Rightarrow> max 1 (cin div 2) | Some l \<Rightarrow> l) \<and>
     Residual_call app mrg b x =
       Inr (mrg Add
         [if (\<exists>s\<in>set (strides self). s \<noteq> 1) \<or> ofilters self \<noteq> cin
          then app (AConv \<lparr> c_rank = rk, c_filters = ofilters self, c_lgroups = None,
                            c_kernel_size = IntArg 1, c_strides = TupleArg (strides self),
                            c_data_format = data_format self, c_dilation_rate = IntArg 1,
                            c_use_bias = None \<rparr>) x
          else x,
          app (NACUnit \<lparr> c_rank = rk, c_filters = ofilters self, c_lgroups = None,
                          c_kernel_size = IntArg 1, c_strides = IntArg 1,
                          c_data_format = data_format self, c_dilation_rate = IntArg 1,
                          c_use_bias =
                            Some (\<not> ((\<exists>s\<in>set (strides self). s \<noteq> 1) \<or> ofilters self \<noteq> cin)) \<rparr>)
            (foldl (\<lambda>y l. app l y)
               (app (NACUnit \<lparr> c_rank = rk, c_filters = lf, c_lgroups = None,
                               c_kernel_size = IntArg 1, c_strides = TupleArg (strides self),
                               c_data_format = data_format self, c_dilation_rate = IntArg 1,
                               c_use_bias = None \<rparr>)
                  (case dropout self of None \<Rightarrow> x | Some k \<Rightarrow> app (Dropout k) x))
               (map (\<lambda>i. NACUnit \<lparr> c_rank = rk, c_filters = lf, c_lgroups = None,
                               c_kernel_size = TupleArg (kernel_size self), c_strides = IntArg 1,
                               c_data_format = data_format self,
                               c_dilation_rate =
                                 (if i = 0 then TupleArg (dilation_rate self) else IntArg 1),
                               c_use_bias = None \<rparr>)
                  [0..<nat (a_depth a - 2)]))])"
proof -
  from Residual_init_fields [OF init] have rk: "rank self = rk"
    and d: "depth self = a_depth a - 2" by simp_all
  from Residual_build_Inr [OF build] obtain cin lf m where
    cin: "channel_axis_dim (data_format self) shp = Some cin" and
    lf: "lf = (case lfilters self of None \<Rightarrow> max 1 (cin div 2) | Some l \<Rightarrow> l)" and
    bb: "build_branches (self\<lparr>lfilters := Some lf\<rparr>) cin None None
        (check_dl_func (strides self) \<and> ofilters self = cin)
        (TupleArg (strides self)) lf (Residual_middle self lf) shp = Inr (b, m)"
    by blast
  note f = build_branches_Inr [OF bb]
  have mid: "map (Residual_middle self lf) [0..<nat (depth self)] =
     map (\<lambda>i. NACUnit \<lparr> c_rank = rk, c_filters = lf, c_lgroups = None,
                               c_kernel_size = TupleArg (kernel_size self), c_strides = IntArg 1,
                               c_data_format = data_format self,
                               c_dilation_rate =
                                 (if i = 0 then TupleArg (dilation_rate self) else IntArg 1),
                               c_use_bias = None \<rparr>)
                  [0..<nat (a_depth a - 2)]"
    by (simp add: Residual_middle_def rk d)
  have lm: "layer_middle b = map (Residual_middle self lf) [0..<nat (depth (blk b))]"
    using f by simp
  have "lfilters (blk b) = Some lf" using f by simp
  moreover have "Residual_call app mrg b x = Inr (mrg Add
         [if (\<exists>s\<in>set (strides self). s \<noteq> 1) \<or> ofilters self \<noteq> cin
          then app (AConv \<lparr> c_rank = rk, c_filters = ofilters self, c_lgroups = None,
                            c_kernel_size = IntArg 1, c_strides = TupleArg (strides self),
                            c_data_format = data_format self, c_dilation_rate = IntArg 1,
                            c_use_bias = None \<rparr>) x
          else x,
          app (NACUnit \<lparr> c_rank = rk, c_filters = ofilters self, c_lgroups = None,
                          c_kernel_size = IntArg 1, c_strides = IntArg 1,
                          c_data_format = data_format self, c_dilation_rate = IntArg 1,
                          c_use_bias =
                            Some (\<not> ((\<exists>s\<in>set (strides self). s \<noteq> 1) \<or> ofilters self \<noteq> cin)) \<rparr>)
            (foldl (\<lambda>y l. app l y)
               (app (NACUnit \<lparr> c_rank = rk, c_filters = lf, c_lgroups = None,
                               c_kernel_size = IntArg 1, c_strides = TupleArg (strides self),
                               c_data_format = data_format self, c_dilation_rate = IntArg 1,
                               c_use_bias = None \<rparr>)
                  (case dropout self of None \<Rightarrow> x | Some k \<Rightarrow> app (Dropout k) x))
               (map (\<lambda>i. NACUnit \<lparr> c_rank = rk, c_filters = lf, c_lgroups = None,
                               c_kernel_size = TupleArg (kernel_size self), c_strides = IntArg 1,
                               c_data_format = data_format self,
                               c_dilation_rate =
                                 (if i = 0 then TupleArg (dilation_rate self) else IntArg 1),
                               c_use_bias = None \<rparr>)
                  [0..<nat (a_depth a - 2)]))])"
    unfolding plain_call_built(1) [OF lm]
    using f mid
    by (auto simp: app_opt_def return_dropout_def check_dl_func_iff rk split: option.splits)
  ultimately show ?thesis using cin lf by blast
qed

theorem Residual_call_structure_witness:
  "\<exists>b. Residual_init channels_last 2 ex_args = Inr ex_block \<and>
       Residual_build ex_block ex_shape = Inr b \<and>
       Residual_call trace_app trace_mrg b [] =
         Inr [AConv \<lparr> c_rank = 2, c_filters = 8, c_lgroups = None,
                      c_kernel_size = IntArg 1, c_strides = TupleArg [1, 1],
                      c_data_format = channels_last, c_dilation_rate = IntArg 1,
                      c_use_bias = None \<rparr>,
              NACUnit \<lparr> c_rank = 2, c_filters = 2, c_lgroups = None,
                      c_kernel_size = IntArg 1, c_strides = TupleArg [1, 1],
                      c_data_format = channels_last, c_dilation_rate = IntArg 1,
                      c_use_bias = None \<rparr>,
              NACUnit \<lparr> c_rank = 2, c_filters = 2, c_lgroups = None,
                      c_kernel_size = TupleArg [3, 3], c_strides = IntArg 1,
                      c_data_format = channels_last, c_dilation_rate = TupleArg [1, 1],
                      c_use_bias = None \<rparr>,
              NACUnit \<lparr> c_rank = 2, c_filters = 8, c_lgroups = None,
                      c_kernel_size = IntArg 1, c_strides = IntArg 1,
                      c_data_format = channels_last, c_dilation_rate = IntArg 1,
                      c_use_bias = Some False \<rparr>,
              Add]"
proof -
  from ex_block_build obtain b where build: "Residual_build ex_block ex_shape = Inr b" ..
  from Residual_call_structure [OF ex_block_init build, of trace_app trace_mrg "[]"] obtain cin lf where
    cin: "channel_axis_dim (data_format ex_block) ex_shape = Some cin" and
    lf: "lf = (case lfilters ex_block of None \<Rightarrow> max 1 (cin div 2) | Some l \<Rightarrow> l)" and
    call: "Residual_call trace_app trace_mrg b [] =
       Inr (trace_mrg Add
         [if (\<exists>s\<in>set (strides ex_block). s \<noteq> 1) \<or> ofilters ex_block \<noteq> cin
          then trace_app (AConv \<lparr> c_rank = 2, c_filters = ofilters ex_block, c_lgroups = None,
                            c_kernel_size = IntArg 1, c_strides = TupleArg (strides ex_block),
                            c_data_format = data_format ex_block, c_dilation_rate = IntArg 1,
                            c_use_bias = None \<rparr>) []
          else [],
          trace_app (NACUnit \<lparr> c_rank = 2, c_filters = ofilters ex_block, c_lgroups = None,
                          c_kernel_size = IntArg 1, c_strides = IntArg 1,
                          c_data_format = data_format ex_block, c_dilation_rate = IntArg 1,
                          c_use_bias =
                            Some (\<not> ((\<exists>s\<in>set (strides ex_block). s \<noteq> 1) \<or> ofilters ex_block \<noteq> cin)) \<rparr>)
            (foldl (\<lambda>y l. trace_app l y)
               (trace_app (NACUnit \<lparr> c_rank = 2, c_filters = lf, c_lgroups = None,
                               c_kernel_size = IntArg 1, c_strides = TupleArg (strides ex_block),
                               c_data_format = data_format ex_block, c_dilation_rate = IntArg 1,
                               c_use_bias = None \<rparr>)
                  (case dropout ex_block of None \<Rightarrow> [] | Some k \<Rightarrow> trace_app (Dropout k) []))
               (map (\<lambda>i. NACUnit \<lparr> c_rank = 2, c_filters = lf, c_lgroups = None,
                               c_kernel_size = TupleArg (kernel_size ex_block), c_strides = IntArg 1,
                               c_data_format = data_format ex_block,
                               c_dilation_rate =
                                 (if i = 0 then TupleArg (dilation_rate ex_block) else IntArg 1),
                               c_use_bias = None \<rparr>)
                  [0..<nat (a_depth ex_args - 2)]))])"
    by blast
  from cin have c4: "cin = 4"
    by (simp add: channel_axis_dim_def ex_block_def ex_shape_def)
  from lf have l2: "lf = 2"
    by (simp add: ex_block_def c4)
  have d: "[0..<nat (a_depth ex_args - 2)] = [0]"
    by (simp add: ex_args_def)
  show ?thesis
    using ex_block_init build call unfolding c4 l2 d
    by (simp add: ex_block_def trace_app_def trace_mrg_def)
qed

subsection \<open>The units of a built ResNeXt block\<close>

lemma block_init_fields:
  assumes "block_init k idf rk a = Inr self"
  shows "rank self = rk \<and> depth self = a_depth a - 2 \<and> length (strides self) = rk \<and>
         length (kernel_size self) = rk \<and> length (dilation_rate self) = rk \<and>
         ofilters self = a_ofilters a"
proof (cases k)
  case Residual
  with assms show ?thesis
    by (auto simp: Residual_init_def sum_bind_Inr_iff split: if_splits
             dest!: normalize_tuple_length)
next
  case ResidualTranspose
  with assms show ?thesis
    by (auto simp: ResidualTranspose_init_def sum_bind_Inr_iff split: if_splits
             dest!: normalize_tuple_length)
next
  case Resnext
  with assms show ?thesis
    by (auto simp: Resnext_init_def sum_bind_Inr_iff split: if_splits
             dest!: normalize_tuple_length)
next
  case ResnextTranspose
  with assms show ?thesis
    by (auto simp: ResnextTranspose_init_def sum_bind_Inr_iff split: if_splits
             dest!: normalize_tuple_length)
qed

lemma resnext_init_latent:
  assumes "is_resnext k" and "block_init k idf rk a = Inr self"
  shows "lgroups self = a_lgroups a \<and> lfilters self = a_lfilters a"
proof (cases k)
  case Residual
  with assms show ?thesis by simp
next
  case ResidualTranspose
  with assms show ?thesis by simp
next
  case Resnext
  with assms show ?thesis
    by (auto simp: Resnext_init_def sum_bind_Inr_iff split: if_splits)
next
  case ResnextTranspose
  with assms show ?thesis
    by (auto simp: ResnextTranspose_init_def sum_bind_Inr_iff split: if_splits)
qed

lemma infer_latent_given:
  assumes "infer_latent f self cin = Inr (g, lf)"
  shows "(\<forall>g0. lgroups self = Some g0 \<longrightarrow> g = g0) \<and>
         (\<forall>l0. lfilters self = Some l0 \<longrightarrow> lf = l0) \<and>
         (lgroups self = None \<and> lfilters self = None \<longrightarrow> g = 32)"
  using assms
  by (auto simp: infer_latent_def sum_bind_Inr_iff split: option.splits)

text \<open>The branches of a ResNeXt block, plain or transposed.\<close>

lemma resnext_build_latent:
  assumes "is_resnext k" and "block_build k idf f self shp = Inr b"
  shows "\<exists>g lf cin up pad ident st s b0 m self'.
     channel_axis_dim (data_format self) shp = Some cin \<and>
     infer_latent f self cin = Inr (g, lf) \<and>
     build_branches self' cin up pad ident st (g * lf) (Resnext_middle self g (g * lf)) s
       = Inr (b0, m) \<and>
     lgroups self' = Some g \<and> lfilters self' = Some lf \<and> rank self' = rank self \<and>
     depth self' = depth self \<and> ofilters self' = ofilters self \<and>
     (\<exists>crop. b = b0\<lparr>layer_cropping := crop\<rparr>)"
proof (cases k)
  case Residual
  with assms show ?thesis by simp
next
  case ResidualTranspose
  with assms show ?thesis by simp
next
  case Resnext
  with assms have "Resnext_build f self shp = Inr b" by simp
  from Resnext_build_Inr [OF this] obtain cin g lf m where
    cin: "channel_axis_dim (data_format self) shp = Some cin" and
    il: "infer_latent f self cin = Inr (g, lf)" and
    bb: "build_branches (self\<lparr>lgroups := Some g, lfilters := Some lf\<rparr>) cin None None
        (check_dl_func (strides self) \<and> ofilters self = cin)
        (TupleArg (strides self)) (g * lf) (Resnext_middle self g (g * lf)) shp = Inr (b, m)"
    by blast
  from build_branches_Inr [OF bb] have "b = b\<lparr>layer_cropping := None\<rparr>" by simp
  with bb show ?thesis
    by (intro exI conjI) (rule cin, rule il, assumption, simp_all)
next
  case ResnextTranspose
  with assms have "ResnextTranspose_build idf f self shp = Inr b" by simp
  from ResnextTranspose_build_Inr [OF this] obtain cin g lf opad ocrop up pad "next" b0 m crop
    where
      cin: "channel_axis_dim (data_format self) shp = Some cin" and
      il: "infer_latent f self cin = Inr (g, lf)" and
      bb: "build_branches
        (self\<lparr>lgroups := Some g, lfilters := Some lf, output_padding := opad,
              output_cropping := ocrop\<rparr>)
        cin (Some up) pad (ofilters self = cin) (IntArg 1) (g * lf)
        (Resnext_middle self g (g * lf)) next = Inr (b0, m)" and
      b: "b = b0\<lparr>layer_cropping := crop\<rparr>"
    by blast
  show ?thesis
    by (intro exI conjI) (rule cin, rule il, rule bb, simp_all add: b)
qed

text \<open>
  C6: in every built ResNeXt block, plain or transposed, the entry unit is an ungrouped
  1x1 \<open>NACUnit\<close> producing \<open>lgroups * lfilters\<close> channels, each of the \<open>depth - 2\<close> middle
  units is a \<open>NACUnit\<close> created with \<open>lgroups\<close> groups over \<open>lgroups * lfilters\<close> channels
  and the block's kernel size, the exit unit is an ungrouped 1x1 \<open>NACUnit\<close> producing
  \<open>ofilters\<close> channels, and no other unit of the block (the projection) is grouped.
  Here \<open>lgroups\<close> and \<open>lfilters\<close> are the counts \<open>g\<close> and \<open>lf\<close> that \<open>build\<close> settles on
  and stores back: the constructor's arguments wherever they are given, 32 groups when
  neither is given, and the estimate otherwise.
\<close>

theorem Resnext_units_grouped:
  assumes resn: "is_resnext k"
      and init: "block_init k idf rk a = Inr self"
      and build: "block_build k idf f self shp = Inr b"
  shows "\<exists>cin g lf. channel_axis_dim (data_format self) shp = Some cin \<and>
     infer_latent f self cin = Inr (g, lf) \<and>
     lgroups self = a_lgroups a \<and> lfilters self = a_lfilters a \<and>
     (\<forall>g0. a_lgroups a = Some g0 \<longrightarrow> g = g0) \<and>
     (\<forall>l0. a_lfilters a = Some l0 \<longrightarrow> lf = l0) \<and>
     (a_lgroups a = None \<and> a_lfilters a = None \<longrightarrow> g = 32) \<and>
     lgroups (blk b) = Some g \<and> lfilters (blk b) = Some lf \<and>
     (\<exists>cfg. layer_first b = NACUnit cfg \<and> c_lgroups cfg = None \<and>
            c_kernel_size cfg = IntArg 1 \<and> c_filters cfg = g * lf) \<and>
     length (layer_middle b) = nat (a_depth a - 2) \<and>
     (\<forall>l\<in>set (layer_middle b). \<exists>cfg. l = NACUnit cfg \<and> c_lgroups cfg = Some g \<and>
            c_filters cfg = g * lf \<and> c_kernel_size cfg = TupleArg (kernel_size self)) \<and>
     (\<exists>cfg. layer_last b = NACUnit cfg \<and> c_lgroups cfg = None \<and>
            c_kernel_size cfg = IntArg 1 \<and> c_filters cfg = a_ofilters a) \<and>
     (\<forall>l\<in>set (conv_units b). l \<notin> set (layer_middle b) \<longrightarrow>
            (\<exists>cfg. cfg_of l = Some cfg \<and> c_lgroups cfg = None))"
proof -
  from resnext_build_latent [OF resn build] obtain g lf cin up pad ident st s b0 m self' crop
    where cin: "channel_axis_dim (data_format self) shp = Some cin" and
      il: "infer_latent f self cin = Inr (g, lf)" and
      bb: "build_branches self' cin up pad ident st (g * lf)
                 (Resnext_middle self g (g * lf)) s = Inr (b0, m)" and
      s: "lgroups self' = Some g" "lfilters self' = Some lf" "rank self' = rank self"
         "depth self' = depth self" "ofilters self' = ofilters self" and
      b: "b = b0\<lparr>layer_cropping := crop\<rparr>"
    by blast
  note f = build_branches_Inr [OF bb]
  note i = block_init_fields [OF init]
  note l = resnext_init_latent [OF resn init]
  have 0: "(\<forall>g0. a_lgroups a = Some g0 \<longrightarrow> g = g0) \<and>
     (\<forall>l0. a_lfilters a = Some l0 \<longrightarrow> lf = l0) \<and>
     (a_lgroups a = None \<and> a_lfilters a = None \<longrightarrow> g = 32)"
    using infer_latent_given [OF il] l by simp
  have mid: "layer_middle b = map (Resnext_middle self g (g * lf)) [0..<nat (a_depth a - 2)]"
    using f s i by (simp add: b)
  have 1: "lgroups (blk b) = Some g" "lfilters (blk b) = Some lf"
    using f s by (simp_all add: b)
  have 2: "\<exists>cfg. layer_first b = NACUnit cfg \<and> c_lgroups cfg = None \<and>
            c_kernel_size cfg = IntArg 1 \<and> c_filters cfg = g * lf"
    using f by (simp add: b)
  have 3: "length (layer_middle b) = nat (a_depth a - 2)"
    by (simp add: mid)
  have 4: "\<forall>l\<in>set (layer_middle b). \<exists>cfg. l = NACUnit cfg \<and> c_lgroups cfg = Some g \<and>
            c_filters cfg = g * lf \<and> c_kernel_size cfg = TupleArg (kernel_size self)"
    by (auto simp: mid Resnext_middle_def)
  have 5: "\<exists>cfg. layer_last b = NACUnit cfg \<and> c_lgroups cfg = None \<and>
            c_kernel_size cfg = IntArg 1 \<and> c_filters cfg = a_ofilters a"
    using f s i by (simp add: b)
  have 6: "\<forall>l\<in>set (conv_units b). l \<notin> set (layer_middle b) \<longrightarrow>
            (\<exists>cfg. cfg_of l = Some cfg \<and> c_lgroups cfg = None)"
    using f by (auto simp: conv_units_def b split: if_splits)
  from cin il l 0 1 2 3 4 5 6 show ?thesis by blast
qed

lemma ex_block_Resnext_init: "Resnext_init channels_last 2 ex_args = Inr ex_block"
  by (simp add: ex_args_def ex_block_def Resnext_init_def normalize_tuple_def check_dl_func_def
        normalize_data_format_def init_activation_def numeral_2_eq_2)

lemma ex_block_latent: "infer_latent ex_est ex_block 4 = Inr (32, 1)"
  by (simp add: infer_latent_def ex_block_def ex_est_def get_prod_def)

lemma ex_block_Resnext_build: "\<exists>b. Resnext_build ex_est ex_block ex_shape = Inr b"
proof -
  have c: "channel_axis_dim (data_format ex_block) ex_shape = Some 4"
    by (simp add: channel_axis_dim_def ex_block_def ex_shape_def)
  have l: "length ex_shape = 4" by (simp add: ex_shape_def)
  show ?thesis
    unfolding Resnext_build_def c l
    by (simp add: ex_block_latent)
       (simp add: build_branches_def ex_block_def ex_shape_def shape_defs
          Resnext_middle_def check_dl_func_def Let_def numeral_2_eq_2)
qed

lemma ex_gblock_init: "Resnext_init channels_last 2 ex_gargs = Inr ex_gblock"
  by (simp add: ex_gargs_def ex_gblock_def ex_args_def ex_block_def Resnext_init_def
        normalize_tuple_def check_dl_func_def normalize_data_format_def init_activation_def
        numeral_2_eq_2)

lemma ex_gblock_build: "\<exists>b. Resnext_build ex_est ex_gblock ex_shape = Inr b"
  by (simp add: Resnext_build_def infer_latent_def build_branches_def ex_gblock_def
        ex_block_def ex_shape_def shape_defs Resnext_middle_def check_dl_func_def Let_def
        numeral_2_eq_2)

theorem Resnext_units_grouped_witness:
  "(\<exists>b. block_init Resnext channels_last 2 ex_gargs = Inr ex_gblock \<and>
       block_build Resnext channels_last ex_est ex_gblock ex_shape = Inr b \<and>
       lgroups (blk b) = Some 2 \<and> lfilters (blk b) = Some 3 \<and>
       (\<exists>cfg. layer_first b = NACUnit cfg \<and> c_lgroups cfg = None \<and> c_filters cfg = 6) \<and>
       (\<exists>cfg. layer_middle b = [NACUnit cfg] \<and> c_lgroups cfg = Some 2 \<and>
              c_filters cfg = 6 \<and> c_kernel_size cfg = TupleArg [3, 3]))
   \<and> (\<exists>b. block_init Resnext channels_last 2 ex_args = Inr ex_block \<and>
       block_build Resnext channels_last ex_est ex_block ex_shape = Inr b \<and>
       lgroups (blk b) = Some 32 \<and> lfilters (blk b) = Some 1 \<and>
       (\<exists>cfg. layer_middle b = [NACUnit cfg] \<and> c_lgroups cfg = Some 32 \<and>
              c_filters cfg = 32 \<and> c_kernel_size cfg = TupleArg [3, 3]))"
proof -
  have r: "is_resnext Resnext" by simp
  have A: "\<exists>b. block_init Resnext channels_last 2 ex_gargs = Inr ex_gblock \<and>
       block_build Resnext channels_last ex_est ex_gblock ex_shape = Inr b \<and>
       lgroups (blk b) = Some 2 \<and> lfilters (blk b) = Some 3 \<and>
       (\<exists>cfg. layer_first b = NACUnit cfg \<and> c_lgroups cfg = None \<and> c_filters cfg = 6) \<and>
       (\<exists>cfg. layer_middle b = [NACUnit cfg] \<and> c_lgroups cfg = Some 2 \<and>
              c_filters cfg = 6 \<and> c_kernel_size cfg = TupleArg [3, 3])"
  proof -
    from ex_gblock_build obtain b where "Resnext_build ex_est ex_gblock ex_shape = Inr b" ..
    then have build: "block_build Resnext channels_last ex_est ex_gblock ex_shape = Inr b"
      by simp
    have init: "block_init Resnext channels_last 2 ex_gargs = Inr ex_gblock"
      by (simp add: ex_gblock_init)
    from Resnext_units_grouped [OF r init build] obtain g lf where
      g0: "\<forall>g0. a_lgroups ex_gargs = Some g0 \<longrightarrow> g = g0" and
      l0: "\<forall>l0. a_lfilters ex_gargs = Some l0 \<longrightarrow> lf = l0" and
      g: "lgroups (blk b) = Some g" and lf: "lfilters (blk b) = Some lf" and
      first: "\<exists>cfg. layer_first b = NACUnit cfg \<and> c_lgroups cfg = None \<and>
            c_kernel_size cfg = IntArg 1 \<and> c_filters cfg = g * lf" and
      len: "length (layer_middle b) = nat (a_depth ex_gargs - 2)" and
      mid: "\<forall>l\<in>set (layer_middle b). \<exists>cfg. l = NACUnit cfg \<and> c_lgroups cfg = Some g \<and>
            c_filters cfg = g * lf \<and> c_kernel_size cfg = TupleArg (kernel_size ex_gblock)"
      by blast
    from g0 l0 have gl: "g = 2" "lf = 3" by (simp_all add: ex_gargs_def)
    from len have "length (layer_middle b) = 1" by (simp add: ex_gargs_def ex_args_def)
    then obtain l where l: "layer_middle b = [l]"
      by (cases "layer_middle b") auto
    with mid gl obtain cfg where "l = NACUnit cfg" "c_lgroups cfg = Some 2" "c_filters cfg = 6"
      "c_kernel_size cfg = TupleArg (kernel_size ex_gblock)" by auto
    with l have m: "\<exists>cfg. layer_middle b = [NACUnit cfg] \<and> c_lgroups cfg = Some 2 \<and>
              c_filters cfg = 6 \<and> c_kernel_size cfg = TupleArg [3, 3]"
      by (simp add: ex_gblock_def ex_block_def)
    from first gl have f: "\<exists>cfg. layer_first b = NACUnit cfg \<and> c_lgroups cfg = None \<and>
         c_filters cfg = 6" by auto
    from init build g lf gl m f show ?thesis by blast
  qed
  have B: "\<exists>b. block_init Resnext channels_last 2 ex_args = Inr ex_block \<and>
       block_build Resnext channels_last ex_est ex_block ex_shape = Inr b \<and>
       lgroups (blk b) = Some 32 \<and> lfilters (blk b) = Some 1 \<and>
       (\<exists>cfg. layer_middle b = [NACUnit cfg] \<and> c_lgroups cfg = Some 32 \<and>
              c_filters cfg = 32 \<and> c_kernel_size cfg = TupleArg [3, 3])"
  proof -
    from ex_block_Resnext_build obtain b where "Resnext_build ex_est ex_block ex_shape = Inr b" ..
    then have build: "block_build Resnext channels_last ex_est ex_block ex_shape = Inr b"
      by simp
    have init: "block_init Resnext channels_last 2 ex_args = Inr ex_block"
      by (simp add: ex_block_Resnext_init)
    from Resnext_units_grouped [OF r init build] obtain cin g lf where
      cin: "channel_axis_dim (data_format ex_block) ex_shape = Some cin" and
      il: "infer_latent ex_est ex_block cin = Inr (g, lf)" and
      g: "lgroups (blk b) = Some g" and lf: "lfilters (blk b) = Some lf" and
      len: "length (layer_middle b) = nat (a_depth ex_args - 2)" and
      mid: "\<forall>l\<in>set (layer_middle b). \<exists>cfg. l = NACUnit cfg \<and> c_lgroups cfg = Some g \<and>
            c_filters cfg = g * lf \<and> c_kernel_size cfg = TupleArg (kernel_size ex_block)"
      by blast
    from cin have "cin = 4" by (simp add: channel_axis_dim_def ex_block_def ex_shape_def)
    with il have gl: "g = 32" "lf = 1" by (simp_all add: ex_block_latent)
    from len have "length (layer_middle b) = 1" by (simp add: ex_args_def)
    then obtain l where l: "layer_middle b = [l]"
      by (cases "layer_middle b") auto
    with mid gl obtain cfg where "l = NACUnit cfg" "c_lgroups cfg = Some 32" "c_filters cfg = 32"
      "c_kernel_size cfg = TupleArg (kernel_size ex_block)" by auto
    with l have "\<exists>cfg. layer_middle b = [NACUnit cfg] \<and> c_lgroups cfg = Some 32 \<and>
              c_filters cfg = 32 \<and> c_kernel_size cfg = TupleArg [3, 3]"
      by (simp add: ex_block_def)
    with init build g lf gl show ?thesis by blast
  qed
  from A B show ?thesis by blast
qed

subsection \<open>The sub-layers of a built transposed block and their order\<close>

lemma uppool_padding_made:
  assumes "build_uppool_padding self opad shp = Inr (up, pad, next)"
      and "length (strides self) = rank self"
      and "rank self = 1 \<longrightarrow> data_format self = channels_last"
  shows "up = UpSampling (strides self) (data_format self) \<and>
         (pad = None \<longleftrightarrow> opad = None) \<and>
         (\<forall>l. pad = Some l \<longrightarrow>
            (\<exists>p ps. opad = Some p \<and> normalize_pad (rank self) p = Inr ps \<and>
                    l = ZeroPadding ps (data_format self)))"
proof (cases "rank self = 1")
  case True
  with assms(2) obtain x where "strides self = [x]"
    by (cases "strides self") auto
  with assms True show ?thesis
    unfolding build_uppool_padding_def Let_def
    by (auto simp: sum_bind_Inr_iff split: option.splits)
next
  case False
  with assms show ?thesis
    unfolding build_uppool_padding_def Let_def
    by (auto simp: sum_bind_Inr_iff split: if_splits option.splits)
qed

lemma cropping_made:
  assumes "build_cropping idf self ocrop m = Inr crop"
  shows "(crop = None \<longleftrightarrow> ocrop = None) \<and>
         (\<forall>l. crop = Some l \<longrightarrow>
            (\<exists>c cs. ocrop = Some c \<and> normalize_pad (rank self) c = Inr cs \<and>
                    l = Cropping cs idf))"
  using assms unfolding build_cropping_def
  by (auto simp: sum_bind_Inr_iff split: if_splits option.splits)

lemma transposed_call_built:
  assumes "layer_middle b = map mk [0..<nat (depth (blk b))]"
      and "layer_uppool b = Some up"
  shows "ResidualTranspose_call app mrg b x =
      Inr (app_opt app (layer_cropping b)
         (mrg (layer_merge b)
            [app_opt app (layer_branch_left b) (app_opt app (layer_padding b) (app up x)),
             app (layer_last b) (foldl (\<lambda>y l. app l y)
               (app (layer_first b)
                  (app_opt app (layer_dropout b) (app_opt app (layer_padding b) (app up x))))
               (layer_middle b))]))"
    and "ResnextTranspose_call app mrg b x =
      Inr (app_opt app (layer_cropping b)
         (mrg (layer_merge b)
            [app_opt app (layer_branch_left b) (app_opt app (layer_padding b) (app up x)),
             app (layer_last b) (foldl (\<lambda>y l. app l y)
               (app (layer_first b)
                  (app_opt app (layer_dropout b) (app_opt app (layer_padding b) (app up x))))
               (layer_middle b))]))"
  unfolding ResidualTranspose_call_def ResnextTranspose_call_def Let_def
  by (simp_all add: assms call_middle_map app_opt_def)

text \<open>The branches of a transposed block.\<close>

lemma transposed_build_parts:
  assumes "is_transposed k" and "block_build k idf f self shp = Inr b"
  shows "\<exists>cin opad ocrop up pad next ff mk b0 m crop self'.
     channel_axis_dim (data_format self) shp = Some cin \<and>
     (case output_mshape self of
        None \<Rightarrow> Inr (output_padding self, output_cropping self)
      | Some ms \<Rightarrow> infer_padding_cropping self shp ms) = Inr (opad, ocrop) \<and>
     build_uppool_padding self opad shp = Inr (up, pad, next) \<and>
     build_branches self' cin (Some up) pad (ofilters self = cin) (IntArg 1) ff mk next
       = Inr (b0, m) \<and>
     build_cropping idf self ocrop m = Inr crop \<and>
     b = b0\<lparr>layer_cropping := crop\<rparr> \<and>
     output_padding self' = opad \<and> output_cropping self' = ocrop \<and>
     depth self' = depth self \<and> rank self' = rank self \<and> ofilters self' = ofilters self \<and>
     (\<forall>i. \<exists>cfg. mk i = NACUnit cfg \<and> c_strides cfg = IntArg 1)"
proof (cases k)
  case Residual
  with assms show ?thesis by simp
next
  case Resnext
  with assms show ?thesis by simp
next
  case ResidualTranspose
  with assms have "ResidualTranspose_build idf self shp = Inr b" by simp
  from ResidualTranspose_build_Inr [OF this] obtain cin lf opad ocrop up pad "next" b0 m crop
    where cin: "channel_axis_dim (data_format self) shp = Some cin" and
      inf: "(case output_mshape self of
        None \<Rightarrow> Inr (output_padding self, output_cropping self)
      | Some ms \<Rightarrow> infer_padding_cropping self shp ms) = Inr (opad, ocrop)" and
      up: "build_uppool_padding self opad shp = Inr (up, pad, next)" and
      bb: "build_branches
        (self\<lparr>lfilters := Some lf, output_padding := opad, output_cropping := ocrop\<rparr>)
        cin (Some up) pad (ofilters self = cin) (IntArg 1) lf
        (Residual_middle self lf) next = Inr (b0, m)" and
      cr: "build_cropping idf self ocrop m = Inr crop" and
      b: "b = b0\<lparr>layer_cropping := crop\<rparr>"
    by blast
  show ?thesis
    by (intro exI conjI)
       (rule cin, rule inf, rule up, rule bb, rule cr, rule b, simp_all add: Residual_middle_def)
next
  case ResnextTranspose
  with assms have "ResnextTranspose_build idf f self shp = Inr b" by simp
  from ResnextTranspose_build_Inr [OF this] obtain cin g lf opad ocrop up pad "next" b0 m crop
    where cin: "channel_axis_dim (data_format self) shp = Some cin" and
      inf: "(case output_mshape self of
        None \<Rightarrow> Inr (output_padding self, output_cropping self)
      | Some ms \<Rightarrow> infer_padding_cropping self shp ms) = Inr (opad, ocrop)" and
      up: "build_uppool_padding self opad shp = Inr (up, pad, next)" and
      bb: "build_branches
        (self\<lparr>lgroups := Some g, lfilters := Some lf, output_padding := opad,
              output_cropping := ocrop\<rparr>)
        cin (Some up) pad (ofilters self = cin) (IntArg 1) (g * lf)
        (Resnext_middle self g (g * lf)) next = Inr (b0, m)" and
      cr: "build_cropping idf self ocrop m = Inr crop" and
      b: "b = b0\<lparr>layer_cropping := crop\<rparr>"
    by blast
  show ?thesis
    by (intro exI conjI)
       (rule cin, rule inf, rule up, rule bb, rule cr, rule b, simp_all add: Resnext_middle_def)
qed

text \<open>
  C5: every transposed block is the corresponding residual or ResNeXt computation preceded
  by spatial upsampling and the optional zero-padding and followed by the optional
  cropping.  \<open>build\<close> creates the upsampling layer with the block's strides as factors;
  \<open>output_padding\<close> and \<open>output_cropping\<close> are the constructor's when no \<open>output_mshape\<close>
  is set and the inferred ones otherwise; there is a padding layer exactly when
  \<open>output_padding\<close> is set and a cropping layer exactly when \<open>output_cropping\<close> is set,
  made from these amounts; every convolution of the block (projection, first, middle,
  last) has stride 1; the projection is there exactly when \<open>ofilters\<close> differs from the
  input's channels, and there are \<open>depth - 2\<close> middle units; and \<open>call\<close> applies the
  upsampling, then the padding, feeds that tensor \<open>u\<close> to both branches, merges them as the
  plain block's \<open>call\<close> does on \<open>u\<close>, and applies the cropping to the merged tensor.
\<close>

theorem transposed_call_structure:
  assumes tr: "is_transposed k"
      and init: "block_init k idf rk a = Inr self"
      and build: "block_build k idf f self shp = Inr b"
  shows "layer_uppool b = Some (UpSampling (strides self) (data_format self)) \<and>
     (case output_mshape self of
        None \<Rightarrow> Inr (output_padding self, output_cropping self)
      | Some ms \<Rightarrow> infer_padding_cropping self shp ms)
       = Inr (output_padding (blk b), output_cropping (blk b)) \<and>
     (layer_padding b = None \<longleftrightarrow> output_padding (blk b) = None) \<and>
     (\<forall>l. layer_padding b = Some l \<longrightarrow>
        (\<exists>p ps. output_padding (blk b) = Some p \<and> normalize_pad rk p = Inr ps \<and>
                l = ZeroPadding ps (data_format self))) \<and>
     (layer_cropping b = None \<longleftrightarrow> output_cropping (blk b) = None) \<and>
     (\<forall>l. layer_cropping b = Some l \<longrightarrow>
        (\<exists>c cs. output_cropping (blk b) = Some c \<and> normalize_pad rk c = Inr cs \<and>
                l = Cropping cs idf)) \<and>
     (\<forall>l\<in>set (conv_units b). \<exists>cfg. cfg_of l = Some cfg \<and> c_strides cfg = IntArg 1) \<and>
     (\<exists>cin. channel_axis_dim (data_format self) shp = Some cin \<and>
        (layer_branch_left b = None \<longleftrightarrow> a_ofilters a = cin) \<and>
        (\<forall>l. layer_branch_left b = Some l \<longrightarrow>
           (\<exists>cfg. l = AConv cfg \<and> c_filters cfg = a_ofilters a \<and>
                  c_kernel_size cfg = IntArg 1))) \<and>
     length (layer_middle b) = nat (a_depth a - 2) \<and>
     (\<exists>cfg. layer_last b = NACUnit cfg \<and> c_filters cfg = a_ofilters a \<and>
            c_kernel_size cfg = IntArg 1) \<and>
     (let u = app_opt app (layer_padding b)
                (app (UpSampling (strides self) (data_format self)) x)
      in block_call k app mrg b x =
           Inr (app_opt app (layer_cropping b)
                  (mrg Add [app_opt app (layer_branch_left b) u,
                            app (layer_last b) (foldl (\<lambda>y l. app l y)
                               (app (layer_first b) (app_opt app (layer_dropout b) u))
                               (layer_middle b))])) \<and>
         block_call (plain_of k) app mrg b u =
           Inr (mrg Add [app_opt app (layer_branch_left b) u,
                         app (layer_last b) (foldl (\<lambda>y l. app l y)
                            (app (layer_first b) (app_opt app (layer_dropout b) u))
                            (layer_middle b))]))"
proof -
  from transposed_build_parts [OF tr build]
  obtain cin opad ocrop up pad "next" ff mk b0 m crop self' where
    cin: "channel_axis_dim (data_format self) shp = Some cin" and
    inf: "(case output_mshape self of
        None \<Rightarrow> Inr (output_padding self, output_cropping self)
      | Some ms \<Rightarrow> infer_padding_cropping self shp ms) = Inr (opad, ocrop)" and
    up: "build_uppool_padding self opad shp = Inr (up, pad, next)" and
    bb: "build_branches self' cin (Some up) pad (ofilters self = cin) (IntArg 1) ff mk next
       = Inr (b0, m)" and
    cr: "build_cropping idf self ocrop m = Inr crop" and
    b: "b = b0\<lparr>layer_cropping := crop\<rparr>" and
    s: "output_padding self' = opad" "output_cropping self' = ocrop" "depth self' = depth self"
       "rank self' = rank self" "ofilters self' = ofilters self"
      and
    mk: "\<forall>i. \<exists>cfg. mk i = NACUnit cfg \<and> c_strides cfg = IntArg 1"
    by blast
  note f = build_branches_Inr [OF bb]
  note i = block_init_fields [OF init]
  from transposed_init_format [OF tr init]
  have cf: "rank self = 1 \<longrightarrow> data_format self = channels_last" .
  from uppool_padding_made [OF up _ cf] i
  have u: "up = UpSampling (strides self) (data_format self)"
    "pad = None \<longleftrightarrow> opad = None"
    "\<forall>l. pad = Some l \<longrightarrow>
            (\<exists>p ps. opad = Some p \<and> normalize_pad rk p = Inr ps \<and>
                    l = ZeroPadding ps (data_format self))"
    by simp_all
  from cropping_made [OF cr] i
  have c: "crop = None \<longleftrightarrow> ocrop = None"
    "\<forall>l. crop = Some l \<longrightarrow>
            (\<exists>c cs. ocrop = Some c \<and> normalize_pad rk c = Inr cs \<and> l = Cropping cs idf)"
    by simp_all
  have 1: "layer_uppool b = Some (UpSampling (strides self) (data_format self))"
    using f u by (simp add: b)
  have pc: "(case output_mshape self of
        None \<Rightarrow> Inr (output_padding self, output_cropping self)
      | Some ms \<Rightarrow> infer_padding_cropping self shp ms)
       = Inr (output_padding (blk b), output_cropping (blk b))"
    using f s inf by (simp add: b)
  have 2: "layer_padding b = None \<longleftrightarrow> output_padding (blk b) = None"
    using f u s by (simp add: b)
  have 3: "\<forall>l. layer_padding b = Some l \<longrightarrow>
        (\<exists>p ps. output_padding (blk b) = Some p \<and> normalize_pad rk p = Inr ps \<and>
                l = ZeroPadding ps (data_format self))"
    using f u s by (simp add: b)
  have 4: "layer_cropping b = None \<longleftrightarrow> output_cropping (blk b) = None"
    using f c s by (simp add: b)
  have 5: "\<forall>l. layer_cropping b = Some l \<longrightarrow>
        (\<exists>c cs. output_cropping (blk b) = Some c \<and> normalize_pad rk c = Inr cs \<and>
                l = Cropping cs idf)"
    using f c s by (simp add: b)
  have lm: "layer_middle b = map mk [0..<nat (depth (blk b))]"
    using f by (simp add: b)
  have 6: "\<forall>l\<in>set (conv_units b). \<exists>cfg. cfg_of l = Some cfg \<and> c_strides cfg = IntArg 1"
  proof
    fix l assume "l \<in> set (conv_units b)"
    then consider "layer_branch_left b = Some l" | "l = layer_first b"
      | "l \<in> set (layer_middle b)" | "l = layer_last b"
      by (auto simp: conv_units_def split: option.splits)
    then show "\<exists>cfg. cfg_of l = Some cfg \<and> c_strides cfg = IntArg 1"
    proof cases
      case 1
      with f show ?thesis by (auto simp: b split: if_splits)
    next
      case 2
      with f show ?thesis by (simp add: b)
    next
      case 3
      then obtain i where "l = mk i" by (auto simp: lm)
      with mk show ?thesis by (metis cfg_of.simps(2))
    next
      case 4
      with f show ?thesis by (simp add: b)
    qed
  qed
  have bl: "\<exists>cin. channel_axis_dim (data_format self) shp = Some cin \<and>
        (layer_branch_left b = None \<longleftrightarrow> a_ofilters a = cin) \<and>
        (\<forall>l. layer_branch_left b = Some l \<longrightarrow>
           (\<exists>cfg. l = AConv cfg \<and> c_filters cfg = a_ofilters a \<and>
                  c_kernel_size cfg = IntArg 1))"
    using f s i cin by (auto simp: b)
  have mlen: "length (layer_middle b) = nat (a_depth a - 2)"
    using f s i by (simp add: b)
  have lst: "\<exists>cfg. layer_last b = NACUnit cfg \<and> c_filters cfg = a_ofilters a \<and>
            c_kernel_size cfg = IntArg 1"
    using f s i by (simp add: b)
  have m: "layer_merge b = Add" using f by (simp add: b)
  have 7: "block_call k app mrg b x =
           Inr (app_opt app (layer_cropping b)
                  (mrg Add [app_opt app (layer_branch_left b)
                              (app_opt app (layer_padding b)
                                 (app (UpSampling (strides self) (data_format self)) x)),
                            app (layer_last b) (foldl (\<lambda>y l. app l y)
                               (app (layer_first b) (app_opt app (layer_dropout b)
                                  (app_opt app (layer_padding b)
                                     (app (UpSampling (strides self) (data_format self)) x))))
                               (layer_middle b))]))"
    using tr transposed_call_built [OF lm 1, of app mrg x]
    by (cases k) (simp_all add: m)
  have 8: "block_call (plain_of k) app mrg b u =
           Inr (mrg Add [app_opt app (layer_branch_left b) u,
                         app (layer_last b) (foldl (\<lambda>y l. app l y)
                            (app (layer_first b) (app_opt app (layer_dropout b) u))
                            (layer_middle b))])" for u
    using plain_call_built [OF lm, of app mrg u]
    by (cases k) (simp_all add: m)
  from 1 pc 2 3 4 5 6 bl mlen lst 7 8 show ?thesis unfolding Let_def by blast
qed

lemma ex_tblock_init: "ResidualTranspose_init channels_last 2 ex_targs = Inr ex_tblock"
  by (simp add: ex_targs_def ex_args_def ex_tblock_def ResidualTranspose_init_def
        normalize_tuple_def check_dl_func_def normalize_data_format_def
        init_activation_def numeral_2_eq_2)

lemma upt_2: "[0..<2] = [0, 1]"
  by (simp add: numeral_2_eq_2)

lemma ex_tblock_infer:
  "infer_padding_cropping ex_tblock ex_shape [None, Some 17, Some 15, Some 8] =
     Inr (Some (PadPairs [(0, 1), (0, 0)]), Some (PadPairs [(0, 0), (0, 1)]))"
  by (simp add: infer_padding_cropping_def ex_tblock_def ex_shape_def upt_2 infer_axis_def
      deFlag_def)

lemma ex_tblock_uppool:
  "build_uppool_padding ex_tblock (Some (PadPairs [(0, 1), (0, 0)])) ex_shape =
     Inr (UpSampling [2, 2] channels_last, Some (ZeroPadding [(0, 1), (0, 0)] channels_last),
          [None, Some 17, Some 16, Some 4])"
  by (simp add: build_uppool_padding_def ex_tblock_def ex_shape_def normalize_pad_def
      shape_defs Let_def)

lemma ex_tblock_build: "ResidualTranspose_build channels_last ex_tblock ex_shape = Inr ex_tbuilt"
proof -
  have c: "channel_axis_dim (data_format ex_tblock) ex_shape = Some 4"
    by (simp add: channel_axis_dim_def ex_tblock_def ex_shape_def)
  have l: "\<not> length ex_shape < rank ex_tblock + 2" by (simp add: ex_shape_def ex_tblock_def)
  have m: "output_mshape ex_tblock = Some [None, Some 17, Some 15, Some 8]"
    by (simp add: ex_tblock_def)
  show ?thesis
    unfolding ResidualTranspose_build_def c m
    apply (simp only: l if_False option.case Let_def ex_tblock_infer sum_bind.simps prod.case
        ex_tblock_uppool)
    apply (simp add: build_branches_def build_cropping_def ex_tblock_def shape_defs
        Residual_middle_def normalize_pad_def Let_def ex_tbuilt_def numeral_2_eq_2)
    done
qed

lemmas eval_defs = ResidualTranspose_init_def init_activation_def ResidualTranspose_build_def
  ResidualTranspose_compute_output_shape_def build_branches_def build_cropping_def
  build_uppool_padding_def infer_padding_cropping_def infer_axis_def deFlag_def
  Residual_middle_def normalize_pad_def normalize_data_format_def check_dl_func_def
  shape_defs Let_def upt_2 numeral_2_eq_2 ex_args_def ex_shape_def

theorem transposed_call_structure_witness:
  "block_init ResidualTranspose channels_last 2 ex_targs = Inr ex_tblock \<and>
   block_build ResidualTranspose channels_last ex_est ex_tblock ex_shape = Inr ex_tbuilt \<and>
   block_call ResidualTranspose trace_app trace_mrg ex_tbuilt [] =
     Inr [UpSampling [2, 2] channels_last, ZeroPadding [(0, 1), (0, 0)] channels_last,
          AConv \<lparr> c_rank = 2, c_filters = 8, c_lgroups = None,
                  c_kernel_size = IntArg 1, c_strides = IntArg 1,
                  c_data_format = channels_last, c_dilation_rate = IntArg 1,
                  c_use_bias = None \<rparr>,
          UpSampling [2, 2] channels_last, ZeroPadding [(0, 1), (0, 0)] channels_last,
          NACUnit \<lparr> c_rank = 2, c_filters = 2, c_lgroups = None,
                    c_kernel_size = IntArg 1, c_strides = IntArg 1,
                    c_data_format = channels_last, c_dilation_rate = IntArg 1,
                    c_use_bias = None \<rparr>,
          NACUnit \<lparr> c_rank = 2, c_filters = 2, c_lgroups = None,
                    c_kernel_size = TupleArg [3, 3], c_strides = IntArg 1,
                    c_data_format = channels_last, c_dilation_rate = TupleArg [1, 1],
                    c_use_bias = None \<rparr>,
          NACUnit \<lparr> c_rank = 2, c_filters = 8, c_lgroups = None,
                    c_kernel_size = IntArg 1, c_strides = IntArg 1,
                    c_data_format = channels_last, c_dilation_rate = IntArg 1,
                    c_use_bias = Some False \<rparr>,
          Add, Cropping [(0, 0), (0, 1)] channels_last]"
proof -
  have init: "block_init ResidualTranspose channels_last 2 ex_targs = Inr ex_tblock"
    by (simp add: ex_tblock_init)
  have build: "block_build ResidualTranspose channels_last ex_est ex_tblock ex_shape = Inr ex_tbuilt"
    by (simp add: ex_tblock_build)
  have tr: "is_transposed ResidualTranspose" by simp
  from transposed_call_structure [OF tr init build, of trace_app "[]" trace_mrg]
  have "block_call ResidualTranspose trace_app trace_mrg ex_tbuilt [] =
           Inr (app_opt trace_app (layer_cropping ex_tbuilt)
                  (trace_mrg Add [app_opt trace_app (layer_branch_left ex_tbuilt)
                      (app_opt trace_app (layer_padding ex_tbuilt)
                        (trace_app (UpSampling (strides ex_tblock) (data_format ex_tblock)) [])),
                            trace_app (layer_last ex_tbuilt) (foldl (\<lambda>y l. trace_app l y)
                               (trace_app (layer_first ex_tbuilt)
                                  (app_opt trace_app (layer_dropout ex_tbuilt)
                      (app_opt trace_app (layer_padding ex_tbuilt)
                        (trace_app (UpSampling (strides ex_tblock) (data_format ex_tblock)) []))))
                               (layer_middle ex_tbuilt))]))"
    unfolding Let_def by blast
  then have "block_call ResidualTranspose trace_app trace_mrg ex_tbuilt [] =
     Inr [UpSampling [2, 2] channels_last, ZeroPadding [(0, 1), (0, 0)] channels_last,
          AConv \<lparr> c_rank = 2, c_filters = 8, c_lgroups = None,
                  c_kernel_size = IntArg 1, c_strides = IntArg 1,
                  c_data_format = channels_last, c_dilation_rate = IntArg 1,
                  c_use_bias = None \<rparr>,
          UpSampling [2, 2] channels_last, ZeroPadding [(0, 1), (0, 0)] channels_last,
          NACUnit \<lparr> c_rank = 2, c_filters = 2, c_lgroups = None,
                    c_kernel_size = IntArg 1, c_strides = IntArg 1,
                    c_data_format = channels_last, c_dilation_rate = IntArg 1,
                    c_use_bias = None \<rparr>,
          NACUnit \<lparr> c_rank = 2, c_filters = 2, c_lgroups = None,
                    c_kernel_size = TupleArg [3, 3], c_strides = IntArg 1,
                    c_data_format = channels_last, c_dilation_rate = TupleArg [1, 1],
                    c_use_bias = None \<rparr>,
          NACUnit \<lparr> c_rank = 2, c_filters = 8, c_lgroups = None,
                    c_kernel_size = IntArg 1, c_strides = IntArg 1,
                    c_data_format = channels_last, c_dilation_rate = IntArg 1,
                    c_use_bias = Some False \<rparr>,
          Add, Cropping [(0, 0), (0, 1)] channels_last]"
    by (simp add: ex_tbuilt_def ex_tblock_def app_opt_def trace_app_def trace_mrg_def)
  with init build show ?thesis by blast
qed

subsection \<open>The inferred padding and cropping at two inputs\<close>

text \<open>
  C1 says that the shape returned by \<open>compute_output_shape\<close> of a transposed block built
  with \<open>output_mshape\<close> has the spatial entries of \<open>output_mshape\<close>.  The code at
  \<open>Residual2DTranspose(ofilters=8, kernel_size=3, depth=3, dilation_rate=2,
  output_mshape=[None, 20, 20, 8])\<close> built on the input shape \<open>(None, 8, 8, 4)\<close>: the
  inference takes the difference to \<open>8 * max(1, 2) = 16\<close> and pads by 4, but the upsampling
  goes by the strides alone and leaves 8, so the output is 12 by 12, not 20 by 20.
\<close>

theorem dilated_output_shape_differs:
  "\<exists>self b. block_init ResidualTranspose channels_last 2 ex_dargs = Inr self \<and>
     output_mshape self = Some [None, Some 20, Some 20, Some 8] \<and>
     block_build ResidualTranspose channels_last ex_est self ex_shape = Inr b \<and>
     block_compute_output_shape ResidualTranspose b ex_shape =
       Inr [None, Some 12, Some 12, Some 8]"
  by (simp add: ex_dargs_def eval_defs)

text \<open>
  C2 gives the inferred padding and cropping of every spatial axis from the difference
  between the desired and the upsampled spatial length.  The code at
  \<open>Residual2DTranspose(ofilters=8, kernel_size=3, depth=3, strides=2,
  data_format='channels_first', output_mshape=[None, 8, 16, 16])\<close> built on the input shape
  \<open>(None, 3, 8, 8)\<close>: both spatial differences are \<open>16 - 8 * 2 = 0\<close>, so the claim gives no
  padding; the code slices the shapes with \<open>[1:-1]\<close>, takes the difference \<open>8 - 3 * 2 = 2\<close>
  of the channel entries for the first axis, and creates a padding layer \<open>((1, 1), (0, 0))\<close>.
\<close>

theorem channels_first_inferred_padding:
  "\<exists>self b. block_init ResidualTranspose channels_last 2 ex_cfargs = Inr self \<and>
     data_format self = channels_first \<and> strides self = [2, 2] \<and>
     dilation_rate self = [1, 1] \<and>
     output_mshape self = Some [None, Some 8, Some 16, Some 16] \<and>
     spatial_of channels_first [None, Some 8, Some 16, Some 16] = [Some 16, Some 16] \<and>
     spatial_of channels_first ex_cf_shape = [Some 8, Some 8] \<and>
     block_build ResidualTranspose channels_last ex_est self ex_cf_shape = Inr b \<and>
     output_padding (blk b) = Some (PadPairs [(1, 1), (0, 0)]) \<and>
     layer_padding b = Some (ZeroPadding [(1, 1), (0, 0)] channels_first)"
  by (simp add: ex_cfargs_def ex_cf_shape_def eval_defs)

end
